theory Spec2Isabelle
  imports Complex_Main "HOL-Library.Monad_Syntax"
begin

section \<open>JSON values as Python holds them\<close>

text \<open>
  The tools receive and return what \<^verbatim>\<open>response.json()\<close> yields: None, bool, int,
  float, str, list and dict. A float is only ever carried from the upstream body to the
  caller, never computed with, so its carrier is the type parameter \<open>'f\<close>. A dict is an
  association list in insertion order; the dicts built by the source and by the JSON
  parser have pairwise distinct keys, and \<open>json_get\<close> reads the entry of a key.
\<close>

datatype 'f json =
    JNull
  | JBool bool
  | JInt int
  | JFloat 'f
  | JString string
  | JArray "'f json list"
  | JObject "(string \<times> 'f json) list"

fun json_get :: "'f json \<Rightarrow> string \<Rightarrow> 'f json option" where
  "json_get (JObject kvs) k = map_of kvs k"
| "json_get _ k = None"

fun json_keys :: "'f json \<Rightarrow> string list" where
  "json_keys (JObject kvs) = map fst kvs"
| "json_keys _ = []"

text \<open>The elements of the list under a key; none when the key is absent or holds no list.\<close>

definition json_list :: "'f json \<Rightarrow> string \<Rightarrow> 'f json list" where
  "json_list j k = (case json_get j k of Some (JArray xs) \<Rightarrow> xs | _ \<Rightarrow> [])"

definition json_opt_str :: "string option \<Rightarrow> 'f json" where
  "json_opt_str v = (case v of None \<Rightarrow> JNull | Some s \<Rightarrow> JString s)"

definition json_str_list :: "string list \<Rightarrow> 'f json" where
  "json_str_list xs = JArray (map JString xs)"

section \<open>Errors\<close>

text \<open>
  Every exception a tool call can end with. \<open>ValidationError\<close> is the rejection of the
  call's arguments against the \<^verbatim>\<open>Field\<close> annotations of the tool's signature and
  names the offending parameters in declaration order; \<open>ValueError\<close> is raised by the
  tools themselves (server.py lines 145, 147); \<open>KeyError\<close> is a lookup in
  \<^verbatim>\<open>base_urls\<close> that misses; \<open>HTTPStatusError\<close> comes from
  \<^verbatim>\<open>raise_for_status\<close>; \<open>TransportError\<close> is any exception of \<^verbatim>\<open>client.post\<close>,
  re-raised unchanged; \<open>JSONDecodeError\<close> is \<^verbatim>\<open>response.json()\<close> on a body that is
  not JSON; \<open>SchemaValidationError\<close> is \<^verbatim>\<open>model_validate\<close> on a body that does not
  fit the response schema; \<open>ReturnTypeError\<close> is the refusal of a value returned by a
  tool function that is not a dict, the return type all four declare
  (\<^verbatim>\<open>-> dict[str, Any]\<close>, server.py lines 117, 173, 249, 322).
\<close>

datatype error =
    ValidationError "string list"
  | TransportError string
  | ValueError string
  | KeyError string
  | HTTPStatusError int
  | JSONDecodeError
  | SchemaValidationError
  | ReturnTypeError

section \<open>The HTTP exchange\<close>

record 'f request =
  req_url :: string
  req_headers :: "(string \<times> string) list"
  req_json :: "'f json"

text \<open>
  A response is its status code and its body as \<^verbatim>\<open>response.json()\<close> reads it:
  \<open>None\<close> when the body is not JSON.
\<close>

record 'f response =
  status_code :: int
  json_body :: "'f json option"

text \<open>The upstream API: what \<^verbatim>\<open>client.post\<close> gives for a request, or the exception it raises.\<close>

type_synonym 'f upstream = "'f request \<Rightarrow> error + 'f response"

text \<open>A tool call ends with an error or a value, and with the list of the requests it issued.\<close>

type_synonym 'f outcome = "(error + 'f json) \<times> 'f request list"

definition base_urls :: "string \<Rightarrow> string option" where
  "base_urls = map_of
     [(''search'', ''https://api.tavily.com/search''),
      (''extract'', ''https://api.tavily.com/extract''),
      (''crawl'', ''https://api.tavily.com/crawl''),
      (''map'', ''https://api.tavily.com/map'')]"

definition headers :: "string \<Rightarrow> (string \<times> string) list" where
  "headers TAVILY_API_KEY =
     [(''accept'', ''application/json''),
      (''content-type'', ''application/json''),
      (''Authorization'', ''Bearer '' @ TAVILY_API_KEY),
      (''user-agent'', ''tavily-mcp'')]"

definition is_success :: "'f response \<Rightarrow> bool" where
  "is_success r = (200 \<le> status_code r \<and> status_code r \<le> 299)"

definition raise_for_status :: "'f response \<Rightarrow> error + 'f response" where
  "raise_for_status r = (if is_success r then Inr r else Inl (HTTPStatusError (status_code r)))"

text \<open>
  The block every tool runs (server.py lines 140-151, 185-196, 266-277, 338-349): one
  POST, then the status checks. An exception leaves the block unchanged
  (\<^verbatim>\<open>except BaseException as e: raise e\<close>); there is no second request on any path.
\<close>

definition post_checked :: "'f upstream \<Rightarrow> 'f request \<Rightarrow> (error + 'f response) \<times> 'f request list" where
  "post_checked upstream req =
     (case upstream req of
        Inl e \<Rightarrow> (Inl e, [req])
      | Inr response \<Rightarrow>
          if \<not> is_success response then
            if status_code response = 401 then (Inl (ValueError ''Invalid API Key''), [req])
            else if status_code response = 429 then (Inl (ValueError ''Usage limit exceeded''), [req])
            else (case raise_for_status response of
                    Inl e \<Rightarrow> (Inl e, [req])
                  | Inr _ \<Rightarrow> (Inr response, [req]))
          else (Inr response, [req]))"

text \<open>\<^verbatim>\<open>response.json()\<close> after the block.\<close>

definition response_json :: "'f response \<Rightarrow> error + 'f json" where
  "response_json r = (case json_body r of None \<Rightarrow> Inl JSONDecodeError | Some d \<Rightarrow> Inr d)"

section \<open>Parameter contracts (server.py lines 49-55)\<close>

definition SearchDepthLiteral :: "string list" where
  "SearchDepthLiteral = [''basic'', ''advanced'']"

definition ExtractDepthLiteral :: "string list" where
  "ExtractDepthLiteral = [''basic'', ''advanced'']"

definition TopicLiteral :: "string list" where
  "TopicLiteral = [''general'', ''news'']"

definition TimeRangeLiteral :: "string list" where
  "TimeRangeLiteral = [''day'', ''week'', ''month'', ''year'', ''d'', ''w'', ''m'', ''y'']"

definition CountryLiteral :: "string list" where
  "CountryLiteral =
    [''afghanistan'', ''albania'', ''algeria'', ''andorra'', ''angola'', ''argentina'',
     ''armenia'', ''australia'', ''austria'', ''azerbaijan'', ''bahamas'', ''bahrain'',
     ''bangladesh'', ''barbados'', ''belarus'', ''belgium'', ''belize'', ''benin'',
     ''bhutan'', ''bolivia'', ''bosnia and herzegovina'', ''botswana'', ''brazil'',
     ''brunei'', ''bulgaria'', ''burkina faso'', ''burundi'', ''cambodia'', ''cameroon'',
     ''canada'', ''cape verde'', ''central african republic'', ''chad'', ''chile'',
     ''china'', ''colombia'', ''comoros'', ''congo'', ''costa rica'', ''croatia'',
     ''cuba'', ''cyprus'', ''czech republic'', ''denmark'', ''djibouti'',
     ''dominican republic'', ''ecuador'', ''egypt'', ''el salvador'',
     ''equatorial guinea'', ''eritrea'', ''estonia'', ''ethiopia'', ''fiji'', ''finland'',
     ''france'', ''gabon'', ''gambia'', ''georgia'', ''germany'', ''ghana'', ''greece'',
     ''guatemala'', ''guinea'', ''haiti'', ''honduras'', ''hungary'', ''iceland'',
     ''india'', ''indonesia'', ''iran'', ''iraq'', ''ireland'', ''israel'', ''italy'',
     ''jamaica'', ''japan'', ''jordan'', ''kazakhstan'', ''kenya'', ''kuwait'',
     ''kyrgyzstan'', ''latvia'', ''lebanon'', ''lesotho'', ''liberia'', ''libya'',
     ''liechtenstein'', ''lithuania'', ''luxembourg'', ''madagascar'', ''malawi'',
     ''malaysia'', ''maldives'', ''mali'', ''malta'', ''mauritania'', ''mauritius'',
     ''mexico'', ''moldova'', ''monaco'', ''mongolia'', ''montenegro'', ''morocco'',
     ''mozambique'', ''myanmar'', ''namibia'', ''nepal'', ''netherlands'', ''new zealand'',
     ''nicaragua'', ''niger'', ''nigeria'', ''north korea'', ''north macedonia'',
     ''norway'', ''oman'', ''pakistan'', ''panama'', ''papua new guinea'', ''paraguay'',
     ''peru'', ''philippines'', ''poland'', ''portugal'', ''qatar'', ''romania'',
     ''russia'', ''rwanda'', ''saudi arabia'', ''senegal'', ''serbia'', ''singapore'',
     ''slovakia'', ''slovenia'', ''somalia'', ''south africa'', ''south korea'',
     ''south sudan'', ''spain'', ''sri lanka'', ''sudan'', ''sweden'', ''switzerland'',
     ''syria'', ''taiwan'', ''tajikistan'', ''tanzania'', ''thailand'', ''togo'',
     ''trinidad and tobago'', ''tunisia'', ''turkey'', ''turkmenistan'', ''uganda'',
     ''ukraine'', ''united arab emirates'', ''united kingdom'', ''united states'',
     ''uruguay'', ''uzbekistan'', ''venezuela'', ''vietnam'', ''yemen'', ''zambia'',
     ''zimbabwe'']"

definition FormatLiteral :: "string list" where
  "FormatLiteral = [''markdown'', ''text'']"

definition CrawlCategoriesLiteral :: "string list" where
  "CrawlCategoriesLiteral =
    [''Careers'', ''Blog'', ''Documentation'', ''About'', ''Pricing'', ''Community'',
     ''Developers'', ''Contact'', ''Media'']"

text \<open>
  The checks the annotations declare. Each gives the list of parameter names it rejects:
  empty when the argument is omitted (the default applies) or legal.
\<close>

definition check_required :: "string \<Rightarrow> 'a option \<Rightarrow> string list" where
  "check_required name v = (case v of None \<Rightarrow> [name] | Some _ \<Rightarrow> [])"

definition check_literal :: "string \<Rightarrow> string list \<Rightarrow> string option \<Rightarrow> string list" where
  "check_literal name legal v =
     (case v of None \<Rightarrow> [] | Some s \<Rightarrow> if s \<in> set legal then [] else [name])"

definition check_literals :: "string \<Rightarrow> string list \<Rightarrow> string list option \<Rightarrow> string list" where
  "check_literals name legal v =
     (case v of None \<Rightarrow> [] | Some xs \<Rightarrow> if set xs \<subseteq> set legal then [] else [name])"

definition check_ge :: "string \<Rightarrow> int \<Rightarrow> int option \<Rightarrow> string list" where
  "check_ge name lo v = (case v of None \<Rightarrow> [] | Some n \<Rightarrow> if lo \<le> n then [] else [name])"

definition check_le :: "string \<Rightarrow> int \<Rightarrow> int option \<Rightarrow> string list" where
  "check_le name hi v = (case v of None \<Rightarrow> [] | Some n \<Rightarrow> if n \<le> hi then [] else [name])"

definition default_to :: "'a \<Rightarrow> 'a option \<Rightarrow> 'a" where
  "default_to d v = (case v of None \<Rightarrow> d | Some x \<Rightarrow> x)"

section \<open>tavily-search (server.py lines 58-154)\<close>

text \<open>
  A call as the caller sends it: each parameter given or omitted (\<open>None\<close>). For
  \<open>time_range\<close> and \<open>country\<close>, whose type admits None, an explicit null and an
  omission are the same argument.
\<close>

record search_call =
  sc_query :: "string option"
  sc_auto_parameters :: "bool option"
  sc_topic :: "string option"
  sc_search_depth :: "string option"
  sc_max_results :: "int option"
  sc_time_range :: "string option"
  sc_days :: "int option"
  sc_include_raw_content :: "bool option"
  sc_include_answer :: "bool option"
  sc_include_images :: "bool option"
  sc_include_image_descriptions :: "bool option"
  sc_include_domains :: "string list option"
  sc_exclude_domains :: "string list option"
  sc_country :: "string option"

text \<open>The arguments the body of \<^verbatim>\<open>search\<close> runs with.\<close>

record search_args =
  s_query :: string
  s_auto_parameters :: bool
  s_topic :: string
  s_search_depth :: string
  s_max_results :: int
  s_time_range :: "string option"
  s_days :: int
  s_include_raw_content :: bool
  s_include_answer :: bool
  s_include_images :: bool
  s_include_image_descriptions :: bool
  s_include_domains :: "string list"
  s_exclude_domains :: "string list"
  s_country :: "string option"

definition search_errors :: "search_call \<Rightarrow> string list" where
  "search_errors c =
     check_required ''query'' (sc_query c) @
     check_literal ''topic'' TopicLiteral (sc_topic c) @
     check_literal ''search_depth'' SearchDepthLiteral (sc_search_depth c) @
     check_ge ''max_results'' 5 (sc_max_results c) @
     check_le ''max_results'' 20 (sc_max_results c) @
     check_literal ''time_range'' TimeRangeLiteral (sc_time_range c) @
     check_literal ''country'' CountryLiteral (sc_country c)"

definition search_bind :: "search_call \<Rightarrow> error + search_args" where
  "search_bind c =
     (case (sc_query c, search_errors c) of
        (Some q, []) \<Rightarrow> Inr
          \<lparr>s_query = q,
           s_auto_parameters = default_to False (sc_auto_parameters c),
           s_topic = default_to ''general'' (sc_topic c),
           s_search_depth = default_to ''basic'' (sc_search_depth c),
           s_max_results = default_to 10 (sc_max_results c),
           s_time_range = sc_time_range c,
           s_days = default_to 3 (sc_days c),
           s_include_raw_content = default_to False (sc_include_raw_content c),
           s_include_answer = default_to False (sc_include_answer c),
           s_include_images = default_to False (sc_include_images c),
           s_include_image_descriptions = default_to False (sc_include_image_descriptions c),
           s_include_domains = default_to [] (sc_include_domains c),
           s_exclude_domains = default_to [] (sc_exclude_domains c),
           s_country = sc_country c\<rparr>
      | (_, errs) \<Rightarrow> Inl (ValidationError errs))"

text \<open>Lines 120-139: the topic override and the payload, keys in source order.\<close>

definition search_params :: "string \<Rightarrow> search_args \<Rightarrow> 'f json" where
  "search_params TAVILY_API_KEY a =
     (let topic = (if s_country a \<noteq> None then ''general'' else s_topic a) in
      JObject
       [(''query'', JString (s_query a)),
        (''auto_parameters'', JBool (s_auto_parameters a)),
        (''search_depth'', JString (s_search_depth a)),
        (''topic'', JString topic),
        (''days'', JInt (s_days a)),
        (''time_range'', json_opt_str (s_time_range a)),
        (''max_results'', JInt (s_max_results a)),
        (''include_answer'', JBool (s_include_answer a)),
        (''include_images'', JBool (s_include_images a)),
        (''include_image_descriptions'', JBool (s_include_image_descriptions a)),
        (''include_raw_content'', JBool (s_include_raw_content a)),
        (''include_domains'', json_str_list (s_include_domains a)),
        (''exclude_domains'', json_str_list (s_exclude_domains a)),
        (''country'', json_opt_str (s_country a)),
        (''api_key'', JString TAVILY_API_KEY)])"

section \<open>Response schemas (schemas.py)\<close>

text \<open>
  \<^verbatim>\<open>model_validate\<close> on the parsed body, field by field as the classes declare them.
  A model takes a dict; a field without a default is required; a field \<^verbatim>\<open>T | None = None\<close>
  may be absent or null; keys the class does not declare are ignored. \<open>None\<close> stands for
  the ValidationError. How a JSON value is read as a float (\<^verbatim>\<open>score\<close>,
  \<^verbatim>\<open>response_time\<close>) is the parameter \<open>as_float\<close>.
\<close>

definition validate_str :: "'f json \<Rightarrow> string option" where
  "validate_str j = (case j of JString s \<Rightarrow> Some s | _ \<Rightarrow> None)"

definition required :: "('f json \<Rightarrow> 'a option) \<Rightarrow> 'f json option \<Rightarrow> 'a option" where
  "required v x = (case x of None \<Rightarrow> None | Some j \<Rightarrow> v j)"

definition optional :: "('f json \<Rightarrow> 'a option) \<Rightarrow> 'f json option \<Rightarrow> 'a option option" where
  "optional v x =
     (case x of
        None \<Rightarrow> Some None
      | Some j \<Rightarrow> (case j of JNull \<Rightarrow> Some None | _ \<Rightarrow> map_option Some (v j)))"

definition validate_list :: "('f json \<Rightarrow> 'a option) \<Rightarrow> 'f json \<Rightarrow> 'a list option" where
  "validate_list v j = (case j of JArray xs \<Rightarrow> those (map v xs) | _ \<Rightarrow> None)"

definition validate_dict :: "'f json \<Rightarrow> (string \<times> 'f json) list option" where
  "validate_dict j = (case j of JObject kvs \<Rightarrow> Some kvs | _ \<Rightarrow> None)"

subsection \<open>Search\<close>

record SearchImage =
  si_url :: string
  si_description :: "string option"

record 'f SearchResult =
  sr_title :: string
  sr_url :: string
  sr_content :: string
  sr_score :: 'f
  sr_published_date :: "string option"
  sr_raw_content :: "string option"

text \<open>An element of \<^verbatim>\<open>images\<close>: \<^verbatim>\<open>str | SearchImage\<close>.\<close>

datatype image = ImageUrl string | ImageModel SearchImage

record 'f TavilySearchResponse =
  tsr_query :: string
  tsr_answer :: "string option"
  tsr_images :: "image list option"
  tsr_results :: "'f SearchResult list"
  tsr_response_time :: 'f
  tsr_auto_parameters :: "(string \<times> 'f json) list option"

definition SearchImage_validate :: "'f json \<Rightarrow> SearchImage option" where
  "SearchImage_validate j =
     (case j of
        JObject kvs \<Rightarrow> do {
          u \<leftarrow> required validate_str (map_of kvs ''url'');
          d \<leftarrow> optional validate_str (map_of kvs ''description'');
          Some \<lparr>si_url = u, si_description = d\<rparr> }
      | _ \<Rightarrow> None)"

definition image_validate :: "'f json \<Rightarrow> image option" where
  "image_validate j =
     (case j of
        JString s \<Rightarrow> Some (ImageUrl s)
      | _ \<Rightarrow> map_option ImageModel (SearchImage_validate j))"

definition SearchResult_validate :: "('f json \<Rightarrow> 'f option) \<Rightarrow> 'f json \<Rightarrow> 'f SearchResult option" where
  "SearchResult_validate as_float j =
     (case j of
        JObject kvs \<Rightarrow> do {
          t \<leftarrow> required validate_str (map_of kvs ''title'');
          u \<leftarrow> required validate_str (map_of kvs ''url'');
          c \<leftarrow> required validate_str (map_of kvs ''content'');
          s \<leftarrow> required as_float (map_of kvs ''score'');
          p \<leftarrow> optional validate_str (map_of kvs ''published_date'');
          r \<leftarrow> optional validate_str (map_of kvs ''raw_content'');
          Some \<lparr>sr_title = t, sr_url = u, sr_content = c, sr_score = s,
                sr_published_date = p, sr_raw_content = r\<rparr> }
      | _ \<Rightarrow> None)"

definition TavilySearchResponse_validate ::
  "('f json \<Rightarrow> 'f option) \<Rightarrow> 'f json \<Rightarrow> 'f TavilySearchResponse option" where
  "TavilySearchResponse_validate as_float j =
     (case j of
        JObject kvs \<Rightarrow> do {
          q \<leftarrow> required validate_str (map_of kvs ''query'');
          a \<leftarrow> optional validate_str (map_of kvs ''answer'');
          i \<leftarrow> optional (validate_list image_validate) (map_of kvs ''images'');
          r \<leftarrow> required (validate_list (SearchResult_validate as_float)) (map_of kvs ''results'');
          t \<leftarrow> required as_float (map_of kvs ''response_time'');
          p \<leftarrow> optional validate_dict (map_of kvs ''auto_parameters'');
          Some \<lparr>tsr_query = q, tsr_answer = a, tsr_images = i, tsr_results = r,
                tsr_response_time = t, tsr_auto_parameters = p\<rparr> }
      | _ \<Rightarrow> None)"

text \<open>\<^verbatim>\<open>model_dump\<close>: every declared field, in declaration order, nested models as dicts.\<close>

definition SearchImage_dump :: "SearchImage \<Rightarrow> 'f json" where
  "SearchImage_dump m =
     JObject [(''url'', JString (si_url m)), (''description'', json_opt_str (si_description m))]"

definition image_dump :: "image \<Rightarrow> 'f json" where
  "image_dump i = (case i of ImageUrl s \<Rightarrow> JString s | ImageModel m \<Rightarrow> SearchImage_dump m)"

definition SearchResult_dump :: "'f SearchResult \<Rightarrow> 'f json" where
  "SearchResult_dump m =
     JObject
      [(''title'', JString (sr_title m)),
       (''url'', JString (sr_url m)),
       (''content'', JString (sr_content m)),
       (''score'', JFloat (sr_score m)),
       (''published_date'', json_opt_str (sr_published_date m)),
       (''raw_content'', json_opt_str (sr_raw_content m))]"

definition TavilySearchResponse_dump :: "'f TavilySearchResponse \<Rightarrow> 'f json" where
  "TavilySearchResponse_dump m =
     JObject
      [(''query'', JString (tsr_query m)),
       (''answer'', json_opt_str (tsr_answer m)),
       (''images'', (case tsr_images m of None \<Rightarrow> JNull | Some xs \<Rightarrow> JArray (map image_dump xs))),
       (''results'', JArray (map SearchResult_dump (tsr_results m))),
       (''response_time'', JFloat (tsr_response_time m)),
       (''auto_parameters'', (case tsr_auto_parameters m of None \<Rightarrow> JNull | Some kvs \<Rightarrow> JObject kvs))]"

subsection \<open>Crawl\<close>

record CrawlResult =
  cr_url :: string
  cr_raw_content :: string

record 'f TavilyCrawlResponse =
  tcr_base_url :: string
  tcr_results :: "CrawlResult list"
  tcr_response_time :: 'f

definition CrawlResult_validate :: "'f json \<Rightarrow> CrawlResult option" where
  "CrawlResult_validate j =
     (case j of
        JObject kvs \<Rightarrow> do {
          u \<leftarrow> required validate_str (map_of kvs ''url'');
          r \<leftarrow> required validate_str (map_of kvs ''raw_content'');
          Some \<lparr>cr_url = u, cr_raw_content = r\<rparr> }
      | _ \<Rightarrow> None)"

definition TavilyCrawlResponse_validate ::
  "('f json \<Rightarrow> 'f option) \<Rightarrow> 'f json \<Rightarrow> 'f TavilyCrawlResponse option" where
  "TavilyCrawlResponse_validate as_float j =
     (case j of
        JObject kvs \<Rightarrow> do {
          b \<leftarrow> required validate_str (map_of kvs ''base_url'');
          r \<leftarrow> required (validate_list CrawlResult_validate) (map_of kvs ''results'');
          t \<leftarrow> required as_float (map_of kvs ''response_time'');
          Some \<lparr>tcr_base_url = b, tcr_results = r, tcr_response_time = t\<rparr> }
      | _ \<Rightarrow> None)"

definition CrawlResult_dump :: "CrawlResult \<Rightarrow> 'f json" where
  "CrawlResult_dump m =
     JObject [(''url'', JString (cr_url m)), (''raw_content'', JString (cr_raw_content m))]"

definition TavilyCrawlResponse_dump :: "'f TavilyCrawlResponse \<Rightarrow> 'f json" where
  "TavilyCrawlResponse_dump m =
     JObject
      [(''base_url'', JString (tcr_base_url m)),
       (''results'', JArray (map CrawlResult_dump (tcr_results m))),
       (''response_time'', JFloat (tcr_response_time m))]"

subsection \<open>Map\<close>

record 'f TavilyMapResponse =
  tmr_base_url :: string
  tmr_results :: "string list"
  tmr_response_time :: 'f

definition TavilyMapResponse_validate ::
  "('f json \<Rightarrow> 'f option) \<Rightarrow> 'f json \<Rightarrow> 'f TavilyMapResponse option" where
  "TavilyMapResponse_validate as_float j =
     (case j of
        JObject kvs \<Rightarrow> do {
          b \<leftarrow> required validate_str (map_of kvs ''base_url'');
          r \<leftarrow> required (validate_list validate_str) (map_of kvs ''results'');
          t \<leftarrow> required as_float (map_of kvs ''response_time'');
          Some \<lparr>tmr_base_url = b, tmr_results = r, tmr_response_time = t\<rparr> }
      | _ \<Rightarrow> None)"

definition TavilyMapResponse_dump :: "'f TavilyMapResponse \<Rightarrow> 'f json" where
  "TavilyMapResponse_dump m =
     JObject
      [(''base_url'', JString (tmr_base_url m)),
       (''results'', json_str_list (tmr_results m)),
       (''response_time'', JFloat (tmr_response_time m))]"

text \<open>\<^verbatim>\<open>Model.model_validate(response_dict).model_dump()\<close>, the last line of three tools.\<close>

definition validate_dump :: "('f json \<Rightarrow> 'm option) \<Rightarrow> ('m \<Rightarrow> 'f json) \<Rightarrow> 'f json \<Rightarrow> error + 'f json" where
  "validate_dump model_validate model_dump d =
     (case model_validate d of None \<Rightarrow> Inl SchemaValidationError | Some m \<Rightarrow> Inr (model_dump m))"

section \<open>The declared response shapes\<close>

text \<open>
  The shapes of schemas.py as predicates on a parsed body, written from the class
  declarations: which keys a dict must have, which it may leave out or set to null, and
  the type of each value. They say what it is for a body to fit a schema, apart from
  how the validation computes it.
\<close>

definition is_str :: "'f json \<Rightarrow> bool" where
  "is_str j = (case j of JString s \<Rightarrow> True | _ \<Rightarrow> False)"

definition is_dict :: "'f json \<Rightarrow> bool" where
  "is_dict j = (case j of JObject kvs \<Rightarrow> True | _ \<Rightarrow> False)"

definition is_float :: "('f json \<Rightarrow> 'f option) \<Rightarrow> 'f json \<Rightarrow> bool" where
  "is_float as_float j = (as_float j \<noteq> None)"

definition is_list_of :: "('f json \<Rightarrow> bool) \<Rightarrow> 'f json \<Rightarrow> bool" where
  "is_list_of P j = (case j of JArray xs \<Rightarrow> list_all P xs | _ \<Rightarrow> False)"

definition has_field :: "(string \<times> 'f json) list \<Rightarrow> string \<Rightarrow> ('f json \<Rightarrow> bool) \<Rightarrow> bool" where
  "has_field kvs k P = (case map_of kvs k of None \<Rightarrow> False | Some j \<Rightarrow> P j)"

definition may_have_field :: "(string \<times> 'f json) list \<Rightarrow> string \<Rightarrow> ('f json \<Rightarrow> bool) \<Rightarrow> bool" where
  "may_have_field kvs k P =
     (case map_of kvs k of None \<Rightarrow> True | Some j \<Rightarrow> (case j of JNull \<Rightarrow> True | _ \<Rightarrow> P j))"

definition fits_SearchImage :: "'f json \<Rightarrow> bool" where
  "fits_SearchImage j =
     (case j of
        JObject kvs \<Rightarrow> has_field kvs ''url'' is_str \<and> may_have_field kvs ''description'' is_str
      | _ \<Rightarrow> False)"

definition fits_image :: "'f json \<Rightarrow> bool" where
  "fits_image j = (is_str j \<or> fits_SearchImage j)"

definition fits_SearchResult :: "('f json \<Rightarrow> 'f option) \<Rightarrow> 'f json \<Rightarrow> bool" where
  "fits_SearchResult as_float j =
     (case j of
        JObject kvs \<Rightarrow>
          has_field kvs ''title'' is_str \<and>
          has_field kvs ''url'' is_str \<and>
          has_field kvs ''content'' is_str \<and>
          has_field kvs ''score'' (is_float as_float) \<and>
          may_have_field kvs ''published_date'' is_str \<and>
          may_have_field kvs ''raw_content'' is_str
      | _ \<Rightarrow> False)"

definition fits_TavilySearchResponse :: "('f json \<Rightarrow> 'f option) \<Rightarrow> 'f json \<Rightarrow> bool" where
  "fits_TavilySearchResponse as_float j =
     (case j of
        JObject kvs \<Rightarrow>
          has_field kvs ''query'' is_str \<and>
          may_have_field kvs ''answer'' is_str \<and>
          may_have_field kvs ''images'' (is_list_of fits_image) \<and>
          has_field kvs ''results'' (is_list_of (fits_SearchResult as_float)) \<and>
          has_field kvs ''response_time'' (is_float as_float) \<and>
          may_have_field kvs ''auto_parameters'' is_dict
      | _ \<Rightarrow> False)"

definition fits_CrawlResult :: "'f json \<Rightarrow> bool" where
  "fits_CrawlResult j =
     (case j of
        JObject kvs \<Rightarrow> has_field kvs ''url'' is_str \<and> has_field kvs ''raw_content'' is_str
      | _ \<Rightarrow> False)"

definition fits_TavilyCrawlResponse :: "('f json \<Rightarrow> 'f option) \<Rightarrow> 'f json \<Rightarrow> bool" where
  "fits_TavilyCrawlResponse as_float j =
     (case j of
        JObject kvs \<Rightarrow>
          has_field kvs ''base_url'' is_str \<and>
          has_field kvs ''results'' (is_list_of fits_CrawlResult) \<and>
          has_field kvs ''response_time'' (is_float as_float)
      | _ \<Rightarrow> False)"

definition fits_TavilyMapResponse :: "('f json \<Rightarrow> 'f option) \<Rightarrow> 'f json \<Rightarrow> bool" where
  "fits_TavilyMapResponse as_float j =
     (case j of
        JObject kvs \<Rightarrow>
          has_field kvs ''base_url'' is_str \<and>
          has_field kvs ''results'' (is_list_of is_str) \<and>
          has_field kvs ''response_time'' (is_float as_float)
      | _ \<Rightarrow> False)"

text \<open>The fields each response class declares, in declaration order.\<close>

definition TavilySearchResponse_fields :: "string list" where
  "TavilySearchResponse_fields =
     [''query'', ''answer'', ''images'', ''results'', ''response_time'', ''auto_parameters'']"

definition SearchResult_fields :: "string list" where
  "SearchResult_fields =
     [''title'', ''url'', ''content'', ''score'', ''published_date'', ''raw_content'']"

definition SearchImage_fields :: "string list" where
  "SearchImage_fields = [''url'', ''description'']"

definition TavilyCrawlResponse_fields :: "string list" where
  "TavilyCrawlResponse_fields = [''base_url'', ''results'', ''response_time'']"

definition CrawlResult_fields :: "string list" where
  "CrawlResult_fields = [''url'', ''raw_content'']"

definition TavilyMapResponse_fields :: "string list" where
  "TavilyMapResponse_fields = [''base_url'', ''results'', ''response_time'']"

section \<open>The tool bodies\<close>

text \<open>
  \<^verbatim>\<open>base_urls[...]\<close> is a dict lookup; the four keys the tools use are all present, and
  the KeyError of a missing one is a branch of \<open>endpoint_of\<close>.
\<close>

definition endpoint_of :: "string \<Rightarrow> error + string" where
  "endpoint_of name = (case base_urls name of None \<Rightarrow> Inl (KeyError name) | Some u \<Rightarrow> Inr u)"

text \<open>\<^verbatim>\<open>client.post(endpoint, json=search_params)\<close> on a client with the fixed headers.\<close>

definition tool_request :: "string \<Rightarrow> string \<Rightarrow> 'f json \<Rightarrow> 'f request" where
  "tool_request TAVILY_API_KEY endpoint params =
     \<lparr>req_url = endpoint, req_headers = headers TAVILY_API_KEY, req_json = params\<rparr>"

text \<open>
  What the four bodies share: the endpoint, the request block, \<^verbatim>\<open>response.json()\<close>, and
  the tool's own last line \<open>finish\<close>.
\<close>

definition dispatch ::
  "string \<Rightarrow> 'f upstream \<Rightarrow> string \<Rightarrow> 'f json \<Rightarrow> ('f json \<Rightarrow> error + 'f json) \<Rightarrow> 'f outcome" where
  "dispatch TAVILY_API_KEY upstream name params finish =
     (case endpoint_of name of
        Inl e \<Rightarrow> (Inl e, [])
      | Inr endpoint \<Rightarrow>
          (case post_checked upstream (tool_request TAVILY_API_KEY endpoint params) of
             (Inl e, sent) \<Rightarrow> (Inl e, sent)
           | (Inr response, sent) \<Rightarrow>
               (case response_json response of
                  Inl e \<Rightarrow> (Inl e, sent)
                | Inr response_dict \<Rightarrow> (finish response_dict, sent))))"

definition search ::
  "string \<Rightarrow> ('f json \<Rightarrow> 'f option) \<Rightarrow> 'f upstream \<Rightarrow> search_args \<Rightarrow> 'f outcome" where
  "search TAVILY_API_KEY as_float upstream a =
     dispatch TAVILY_API_KEY upstream ''search'' (search_params TAVILY_API_KEY a)
       (validate_dump (TavilySearchResponse_validate as_float) TavilySearchResponse_dump)"

text \<open>
  The registered tool: the arguments are checked first, and a rejected call runs no
  body; the value the body returns is handed to the caller when it is a dict, the
  declared return type, and refused otherwise.
\<close>

definition returns_dict :: "'f outcome \<Rightarrow> 'f outcome" where
  "returns_dict out =
     (case out of
        (Inl e, sent) \<Rightarrow> (Inl e, sent)
      | (Inr v, sent) \<Rightarrow>
          (case v of JObject kvs \<Rightarrow> (Inr v, sent) | _ \<Rightarrow> (Inl ReturnTypeError, sent)))"

definition tavily_search ::
  "string \<Rightarrow> ('f json \<Rightarrow> 'f option) \<Rightarrow> 'f upstream \<Rightarrow> search_call \<Rightarrow> 'f outcome" where
  "tavily_search TAVILY_API_KEY as_float upstream c =
     (case search_bind c of
        Inl e \<Rightarrow> (Inl e, [])
      | Inr a \<Rightarrow> returns_dict (search TAVILY_API_KEY as_float upstream a))"

section \<open>tavily-extract (server.py lines 156-200)\<close>

record extract_call =
  ec_urls :: "string list option"
  ec_extract_depth :: "string option"
  ec_include_images :: "bool option"
  ec_format :: "string option"

record extract_args =
  e_urls :: "string list"
  e_extract_depth :: string
  e_include_images :: bool
  e_format :: string

definition extract_errors :: "extract_call \<Rightarrow> string list" where
  "extract_errors c =
     check_required ''urls'' (ec_urls c) @
     check_literal ''extract_depth'' ExtractDepthLiteral (ec_extract_depth c) @
     check_literal ''format'' FormatLiteral (ec_format c)"

definition extract_bind :: "extract_call \<Rightarrow> error + extract_args" where
  "extract_bind c =
     (case (ec_urls c, extract_errors c) of
        (Some us, []) \<Rightarrow> Inr
          \<lparr>e_urls = us,
           e_extract_depth = default_to ''basic'' (ec_extract_depth c),
           e_include_images = default_to False (ec_include_images c),
           e_format = default_to ''markdown'' (ec_format c)\<rparr>
      | (_, errs) \<Rightarrow> Inl (ValidationError errs))"

definition extract_params :: "string \<Rightarrow> extract_args \<Rightarrow> 'f json" where
  "extract_params TAVILY_API_KEY a =
     JObject
      [(''urls'', json_str_list (e_urls a)),
       (''extract_depth'', JString (e_extract_depth a)),
       (''include_images'', JBool (e_include_images a)),
       (''format'', JString (e_format a)),
       (''api_key'', JString TAVILY_API_KEY)]"

text \<open>Lines 198-199: the parsed body is returned as it is.\<close>

definition extract_tool :: "string \<Rightarrow> 'f upstream \<Rightarrow> extract_args \<Rightarrow> 'f outcome" where
  "extract_tool TAVILY_API_KEY upstream a =
     dispatch TAVILY_API_KEY upstream ''extract'' (extract_params TAVILY_API_KEY a) Inr"

definition tavily_extract :: "string \<Rightarrow> 'f upstream \<Rightarrow> extract_call \<Rightarrow> 'f outcome" where
  "tavily_extract TAVILY_API_KEY upstream c =
     (case extract_bind c of
        Inl e \<Rightarrow> (Inl e, [])
      | Inr a \<Rightarrow> returns_dict (extract_tool TAVILY_API_KEY upstream a))"

section \<open>tavily-crawl (server.py lines 202-280)\<close>

record crawl_call =
  cc_url :: "string option"
  cc_instructions :: "string option"
  cc_max_depth :: "int option"
  cc_max_breadth :: "int option"
  cc_limit :: "int option"
  cc_select_paths :: "string list option"
  cc_select_domains :: "string list option"
  cc_allow_external :: "bool option"
  cc_categories :: "string list option"
  cc_extract_depth :: "string option"
  cc_format :: "string option"

record crawl_args =
  c_url :: string
  c_instructions :: string
  c_max_depth :: int
  c_max_breadth :: int
  c_limit :: int
  c_select_paths :: "string list"
  c_select_domains :: "string list"
  c_allow_external :: bool
  c_categories :: "string list"
  c_extract_depth :: string
  c_format :: string

definition crawl_errors :: "crawl_call \<Rightarrow> string list" where
  "crawl_errors c =
     check_required ''url'' (cc_url c) @
     check_required ''instructions'' (cc_instructions c) @
     check_ge ''max_depth'' 1 (cc_max_depth c) @
     check_ge ''max_breadth'' 1 (cc_max_breadth c) @
     check_ge ''limit'' 1 (cc_limit c) @
     check_literals ''categories'' CrawlCategoriesLiteral (cc_categories c) @
     check_literal ''extract_depth'' ExtractDepthLiteral (cc_extract_depth c) @
     check_literal ''format'' FormatLiteral (cc_format c)"

definition crawl_bind :: "crawl_call \<Rightarrow> error + crawl_args" where
  "crawl_bind c =
     (case (cc_url c, cc_instructions c, crawl_errors c) of
        (Some u, Some i, []) \<Rightarrow> Inr
          \<lparr>c_url = u,
           c_instructions = i,
           c_max_depth = default_to 1 (cc_max_depth c),
           c_max_breadth = default_to 20 (cc_max_breadth c),
           c_limit = default_to 50 (cc_limit c),
           c_select_paths = default_to [] (cc_select_paths c),
           c_select_domains = default_to [] (cc_select_domains c),
           c_allow_external = default_to False (cc_allow_external c),
           c_categories = default_to [] (cc_categories c),
           c_extract_depth = default_to ''basic'' (cc_extract_depth c),
           c_format = default_to ''markdown'' (cc_format c)\<rparr>
      | (_, _, errs) \<Rightarrow> Inl (ValidationError errs))"

definition crawl_params :: "string \<Rightarrow> crawl_args \<Rightarrow> 'f json" where
  "crawl_params TAVILY_API_KEY a =
     JObject
      [(''url'', JString (c_url a)),
       (''instructions'', JString (c_instructions a)),
       (''max_depth'', JInt (c_max_depth a)),
       (''max_breadth'', JInt (c_max_breadth a)),
       (''limit'', JInt (c_limit a)),
       (''select_paths'', json_str_list (c_select_paths a)),
       (''select_domains'', json_str_list (c_select_domains a)),
       (''allow_external'', JBool (c_allow_external a)),
       (''categories'', json_str_list (c_categories a)),
       (''extract_depth'', JString (c_extract_depth a)),
       (''format'', JString (c_format a)),
       (''api_key'', JString TAVILY_API_KEY)]"

definition crawl ::
  "string \<Rightarrow> ('f json \<Rightarrow> 'f option) \<Rightarrow> 'f upstream \<Rightarrow> crawl_args \<Rightarrow> 'f outcome" where
  "crawl TAVILY_API_KEY as_float upstream a =
     dispatch TAVILY_API_KEY upstream ''crawl'' (crawl_params TAVILY_API_KEY a)
       (validate_dump (TavilyCrawlResponse_validate as_float) TavilyCrawlResponse_dump)"

definition tavily_crawl ::
  "string \<Rightarrow> ('f json \<Rightarrow> 'f option) \<Rightarrow> 'f upstream \<Rightarrow> crawl_call \<Rightarrow> 'f outcome" where
  "tavily_crawl TAVILY_API_KEY as_float upstream c =
     (case crawl_bind c of
        Inl e \<Rightarrow> (Inl e, [])
      | Inr a \<Rightarrow> returns_dict (crawl TAVILY_API_KEY as_float upstream a))"

section \<open>tavily-map (server.py lines 283-352)\<close>

record map_call =
  mc_url :: "string option"
  mc_instructions :: "string option"
  mc_max_depth :: "int option"
  mc_max_breadth :: "int option"
  mc_limit :: "int option"
  mc_select_paths :: "string list option"
  mc_select_domains :: "string list option"
  mc_allow_external :: "bool option"
  mc_categories :: "string list option"

record map_args =
  m_url :: string
  m_instructions :: string
  m_max_depth :: int
  m_max_breadth :: int
  m_limit :: int
  m_select_paths :: "string list"
  m_select_domains :: "string list"
  m_allow_external :: bool
  m_categories :: "string list"

definition map_errors :: "map_call \<Rightarrow> string list" where
  "map_errors c =
     check_required ''url'' (mc_url c) @
     check_required ''instructions'' (mc_instructions c) @
     check_ge ''max_depth'' 1 (mc_max_depth c) @
     check_ge ''max_breadth'' 1 (mc_max_breadth c) @
     check_ge ''limit'' 1 (mc_limit c) @
     check_literals ''categories'' CrawlCategoriesLiteral (mc_categories c)"

definition map_bind :: "map_call \<Rightarrow> error + map_args" where
  "map_bind c =
     (case (mc_url c, mc_instructions c, map_errors c) of
        (Some u, Some i, []) \<Rightarrow> Inr
          \<lparr>m_url = u,
           m_instructions = i,
           m_max_depth = default_to 1 (mc_max_depth c),
           m_max_breadth = default_to 20 (mc_max_breadth c),
           m_limit = default_to 50 (mc_limit c),
           m_select_paths = default_to [] (mc_select_paths c),
           m_select_domains = default_to [] (mc_select_domains c),
           m_allow_external = default_to False (mc_allow_external c),
           m_categories = default_to [] (mc_categories c)\<rparr>
      | (_, _, errs) \<Rightarrow> Inl (ValidationError errs))"

definition map_params :: "string \<Rightarrow> map_args \<Rightarrow> 'f json" where
  "map_params TAVILY_API_KEY a =
     JObject
      [(''url'', JString (m_url a)),
       (''instructions'', JString (m_instructions a)),
       (''max_depth'', JInt (m_max_depth a)),
       (''max_breadth'', JInt (m_max_breadth a)),
       (''limit'', JInt (m_limit a)),
       (''select_paths'', json_str_list (m_select_paths a)),
       (''select_domains'', json_str_list (m_select_domains a)),
       (''allow_external'', JBool (m_allow_external a)),
       (''categories'', json_str_list (m_categories a)),
       (''api_key'', JString TAVILY_API_KEY)]"

definition map_tool ::
  "string \<Rightarrow> ('f json \<Rightarrow> 'f option) \<Rightarrow> 'f upstream \<Rightarrow> map_args \<Rightarrow> 'f outcome" where
  "map_tool TAVILY_API_KEY as_float upstream a =
     dispatch TAVILY_API_KEY upstream ''map'' (map_params TAVILY_API_KEY a)
       (validate_dump (TavilyMapResponse_validate as_float) TavilyMapResponse_dump)"

definition tavily_map ::
  "string \<Rightarrow> ('f json \<Rightarrow> 'f option) \<Rightarrow> 'f upstream \<Rightarrow> map_call \<Rightarrow> 'f outcome" where
  "tavily_map TAVILY_API_KEY as_float upstream c =
     (case map_bind c of
        Inl e \<Rightarrow> (Inl e, [])
      | Inr a \<Rightarrow> returns_dict (map_tool TAVILY_API_KEY as_float upstream a))"

section \<open>Process start (server.py lines 13-40 and 58-283, __init__.py)\<close>

text \<open>
  Importing \<^verbatim>\<open>server\<close> runs its top-level statements in order: the port is read,
  the server object is made, the credential is read and checked, and only then do the
  four \<^verbatim>\<open>@mcp_server.tool\<close> decorators register the tools. \<^verbatim>\<open>sys.exit(-1)\<close> ends the
  import and the process. How \<^verbatim>\<open>int(...)\<close> reads the port text is the parameter
  \<open>py_int\<close> (\<open>None\<close> when it raises).
\<close>

record environ =
  env_TAVILY_MCP_PORT :: "string option"
  env_TAVILY_API_KEY :: "string option"

record server_module =
  mod_port :: int
  mod_host :: string
  mod_api_key :: "string option"
  mod_tools :: "string list"
  mod_stdout :: "string list"

text \<open>
  A started process has either ended with \<^verbatim>\<open>sys.exit\<close> (the exit code and the module
  as it was at that statement) or is running.
\<close>

datatype 'a started = SystemExit int server_module | Running 'a

definition tavily_port :: "(string \<Rightarrow> int option) \<Rightarrow> environ \<Rightarrow> int" where
  "tavily_port py_int env =
     (case env_TAVILY_MCP_PORT env of
        None \<Rightarrow> 8000
      | Some s \<Rightarrow> (case py_int s of Some n \<Rightarrow> n | None \<Rightarrow> 8000))"

definition print_line :: "string \<Rightarrow> server_module \<Rightarrow> server_module" where
  "print_line s m = m\<lparr>mod_stdout := mod_stdout m @ [s]\<rparr>"

definition register_tool :: "string \<Rightarrow> server_module \<Rightarrow> server_module" where
  "register_tool name m = m\<lparr>mod_tools := mod_tools m @ [name]\<rparr>"

definition import_server :: "(string \<Rightarrow> int option) \<Rightarrow> environ \<Rightarrow> server_module started" where
  "import_server py_int env =
     (let m = \<lparr>mod_port = tavily_port py_int env, mod_host = ''0.0.0.0'',
               mod_api_key = env_TAVILY_API_KEY env, mod_tools = [], mod_stdout = []\<rparr> in
      case mod_api_key m of
        None \<Rightarrow> SystemExit (- 1) (print_line ''Tavily API KEY Does not exist!! '' m)
      | Some _ \<Rightarrow>
          Running
            (register_tool ''tavily-map''
              (register_tool ''tavily-crawl''
                (register_tool ''tavily-extract''
                  (register_tool ''tavily-search'' m)))))"

text \<open>
  \<^verbatim>\<open>run_sse\<close> and \<^verbatim>\<open>run_stdio\<close> of the package: the import of \<^verbatim>\<open>server\<close> comes first,
  then \<^verbatim>\<open>run_server\<close> prints its line and serves the registered tools on the transport.
\<close>

record serving =
  srv_transport :: string
  srv_module :: server_module

definition run_server :: "string \<Rightarrow> server_module \<Rightarrow> serving" where
  "run_server transport_method m =
     \<lparr>srv_transport = transport_method,
      srv_module = print_line (''Running the server using the transport '' @ transport_method) m\<rparr>"

definition run_with :: "string \<Rightarrow> (string \<Rightarrow> int option) \<Rightarrow> environ \<Rightarrow> serving started" where
  "run_with transport_method py_int env =
     (case import_server py_int env of
        SystemExit code m \<Rightarrow> SystemExit code m
      | Running m \<Rightarrow> Running (run_server transport_method m))"

definition run_sse :: "(string \<Rightarrow> int option) \<Rightarrow> environ \<Rightarrow> serving started" where
  "run_sse = run_with ''sse''"

definition run_stdio :: "(string \<Rightarrow> int option) \<Rightarrow> environ \<Rightarrow> serving started" where
  "run_stdio = run_with ''stdio''"

text \<open>The tools a caller can reach: those of a serving process, none of an ended one.\<close>

definition callable_tools :: "serving started \<Rightarrow> string list" where
  "callable_tools p = (case p of SystemExit _ _ \<Rightarrow> [] | Running s \<Rightarrow> mod_tools (srv_module s))"

section \<open>Reading a returned value\<close>

text \<open>
  How a dumped dict \<open>y\<close> stands to the upstream dict \<open>x\<close> it was validated from: its
  keys are exactly the \<open>declared\<close> fields, and each of the \<open>optionals\<close> that \<open>x\<close> leaves
  out is null in \<open>y\<close>.
\<close>

definition nulls_filled :: "string list \<Rightarrow> 'f json \<Rightarrow> 'f json \<Rightarrow> bool" where
  "nulls_filled optionals x y =
     list_all (\<lambda>k. json_get x k = None \<longrightarrow> json_get y k = Some JNull) optionals"

definition dumped_as :: "string list \<Rightarrow> string list \<Rightarrow> 'f json \<Rightarrow> 'f json \<Rightarrow> bool" where
  "dumped_as declared optionals x y = (json_keys y = declared \<and> nulls_filled optionals x y)"

text \<open>An element of \<^verbatim>\<open>images\<close>: a string stays, a dict is dumped as a SearchImage.\<close>

definition image_dumped_as :: "'f json \<Rightarrow> 'f json \<Rightarrow> bool" where
  "image_dumped_as x y =
     (case x of
        JString s \<Rightarrow> y = JString s
      | _ \<Rightarrow> dumped_as SearchImage_fields [''description''] x y)"

text \<open>Two parsed bodies that have the same value, or none, under each of the given keys.\<close>

definition same_fields :: "string list \<Rightarrow> 'f json \<Rightarrow> 'f json \<Rightarrow> bool" where
  "same_fields declared x y = list_all (\<lambda>k. json_get x k = json_get y k) declared"


text \<open>
  The two lists of an extract response (schemas.py lines 35-38: \<^verbatim>\<open>results\<close> and
  \<^verbatim>\<open>failed_results\<close>) and the URLs of their entries, read from the returned dict.
\<close>

definition success_list :: "'f json \<Rightarrow> 'f json list" where
  "success_list j = json_list j ''results''"

definition failure_list :: "'f json \<Rightarrow> 'f json list" where
  "failure_list j = json_list j ''failed_results''"

definition entry_urls :: "'f json list \<Rightarrow> string list" where
  "entry_urls xs = concat (map (\<lambda>x. case json_get x ''url'' of Some (JString u) \<Rightarrow> [u] | _ \<Rightarrow> []) xs)"

text \<open>Every input URL is in exactly one of the two lists.\<close>

definition each_url_in_one_list :: "string list \<Rightarrow> 'f json \<Rightarrow> bool" where
  "each_url_in_one_list urls j =
     list_all (\<lambda>u. (u \<in> set (entry_urls (success_list j))) \<noteq> (u \<in> set (entry_urls (failure_list j)))) urls"

section \<open>Example inputs\<close>

text \<open>Calls that give the required parameters only.\<close>

definition search_only :: "string \<Rightarrow> search_call" where
  "search_only q =
     \<lparr>sc_query = Some q, sc_auto_parameters = None, sc_topic = None, sc_search_depth = None,
      sc_max_results = None, sc_time_range = None, sc_days = None,
      sc_include_raw_content = None, sc_include_answer = None, sc_include_images = None,
      sc_include_image_descriptions = None, sc_include_domains = None,
      sc_exclude_domains = None, sc_country = None\<rparr>"

definition extract_only :: "string list \<Rightarrow> extract_call" where
  "extract_only us =
     \<lparr>ec_urls = Some us, ec_extract_depth = None, ec_include_images = None, ec_format = None\<rparr>"

definition crawl_only :: "string \<Rightarrow> string \<Rightarrow> crawl_call" where
  "crawl_only u i =
     \<lparr>cc_url = Some u, cc_instructions = Some i, cc_max_depth = None, cc_max_breadth = None,
      cc_limit = None, cc_select_paths = None, cc_select_domains = None,
      cc_allow_external = None, cc_categories = None, cc_extract_depth = None,
      cc_format = None\<rparr>"

definition map_only :: "string \<Rightarrow> string \<Rightarrow> map_call" where
  "map_only u i =
     \<lparr>mc_url = Some u, mc_instructions = Some i, mc_max_depth = None, mc_max_breadth = None,
      mc_limit = None, mc_select_paths = None, mc_select_domains = None,
      mc_allow_external = None, mc_categories = None\<rparr>"

text \<open>An upstream that answers every request with the same response.\<close>

definition respond_with :: "'f response \<Rightarrow> 'f upstream" where
  "respond_with r = (\<lambda>req. Inr r)"

text \<open>One reading of a float field, for the examples: a JSON number.\<close>

definition number_as_float :: "real json \<Rightarrow> real option" where
  "number_as_float j = (case j of JFloat x \<Rightarrow> Some x | JInt n \<Rightarrow> Some (of_int n) | _ \<Rightarrow> None)"

text \<open>
  Upstream bodies for the examples. Each of the first three fits its tool's schema, leaves
  the optional fields out and carries a key the schema does not declare.
\<close>

definition search_body :: "real json" where
  "search_body =
     JObject
      [(''query'', JString ''q''),
       (''images'', JArray [JString ''i'', JObject [(''url'', JString ''j''), (''alt'', JString ''a'')]]),
       (''results'', JArray
          [JObject
            [(''title'', JString ''t''), (''url'', JString ''u''), (''content'', JString ''c''),
             (''score'', JFloat (1 / 2)), (''favicon'', JString ''f'')]]),
       (''response_time'', JInt 1),
       (''request_id'', JString ''x'')]"

definition crawl_body :: "real json" where
  "crawl_body =
     JObject
      [(''base_url'', JString ''b''),
       (''results'', JArray [JObject [(''url'', JString ''u''), (''raw_content'', JString ''c'')]]),
       (''response_time'', JFloat (1 / 2)),
       (''request_id'', JString ''x'')]"

definition map_body :: "real json" where
  "map_body =
     JObject
      [(''base_url'', JString ''b''),
       (''results'', JArray [JString ''u'']),
       (''response_time'', JFloat (1 / 2)),
       (''request_id'', JString ''x'')]"

text \<open>
  Two extract bodies with two successes and one failure: the first lists each of the URLs
  a, b, c once; the second lists b as a success and as a failure, and c nowhere.
\<close>

definition extract_body_partition :: "real json" where
  "extract_body_partition =
     JObject
      [(''results'', JArray
          [JObject [(''url'', JString ''a''), (''raw_content'', JString ''x''), (''images'', JArray [])],
           JObject [(''url'', JString ''b''), (''raw_content'', JString ''y''), (''images'', JArray [])]]),
       (''failed_results'', JArray
          [JObject [(''url'', JString ''c''), (''error'', JString ''e'')]]),
       (''response_time'', JFloat (1 / 2))]"

definition extract_body_overlap :: "real json" where
  "extract_body_overlap =
     JObject
      [(''results'', JArray
          [JObject [(''url'', JString ''a''), (''raw_content'', JString ''x''), (''images'', JArray [])],
           JObject [(''url'', JString ''b''), (''raw_content'', JString ''y''), (''images'', JArray [])]]),
       (''failed_results'', JArray
          [JObject [(''url'', JString ''b''), (''error'', JString ''e'')]]),
       (''response_time'', JFloat (1 / 2))]"

text \<open>The same search body without the keys its schema does not declare.\<close>

definition search_body_declared :: "real json" where
  "search_body_declared =
     JObject
      [(''query'', JString ''q''),
       (''images'', JArray [JString ''i'', JObject [(''url'', JString ''j''), (''alt'', JString ''a'')]]),
       (''results'', JArray
          [JObject
            [(''title'', JString ''t''), (''url'', JString ''u''), (''content'', JString ''c''),
             (''score'', JFloat (1 / 2)), (''favicon'', JString ''f'')]]),
       (''response_time'', JInt 1)]"

text \<open>A body that is JSON and not an object.\<close>

definition list_body :: "real json" where
  "list_body = JArray [JInt 1, JInt 2]"

definition ok_response :: "'f json \<Rightarrow> 'f response" where
  "ok_response body = \<lparr>status_code = 200, json_body = Some body\<rparr>"

section \<open>Properties\<close>

subsection \<open>Shared facts about the request block and the return check\<close>

lemma dispatch_401:
  assumes "base_urls name = Some url"
    and "upstream (tool_request key url params) = Inr r"
    and "status_code r = 401"
  shows "dispatch key upstream name params finish =
           (Inl (ValueError ''Invalid API Key''), [tool_request key url params])"
  using assms by (simp add: dispatch_def endpoint_of_def post_checked_def is_success_def)

lemma dispatch_429:
  assumes "base_urls name = Some url"
    and "upstream (tool_request key url params) = Inr r"
    and "status_code r = 429"
  shows "dispatch key upstream name params finish =
           (Inl (ValueError ''Usage limit exceeded''), [tool_request key url params])"
  using assms by (simp add: dispatch_def endpoint_of_def post_checked_def is_success_def)

lemma dispatch_success:
  assumes "base_urls name = Some url"
    and "upstream (tool_request key url params) = Inr r"
    and "is_success r"
    and "json_body r = Some body"
  shows "dispatch key upstream name params finish =
           (finish body, [tool_request key url params])"
  using assms by (simp add: dispatch_def endpoint_of_def post_checked_def response_json_def)

lemma dispatch_log:
  "snd (dispatch key upstream name params finish) =
     (case base_urls name of None \<Rightarrow> [] | Some url \<Rightarrow> [tool_request key url params])"
  by (auto simp add: dispatch_def endpoint_of_def post_checked_def raise_for_status_def
      split: option.splits sum.splits prod.splits if_splits)

lemma base_urls_simps:
  "base_urls ''search'' = Some ''https://api.tavily.com/search''"
  "base_urls ''extract'' = Some ''https://api.tavily.com/extract''"
  "base_urls ''crawl'' = Some ''https://api.tavily.com/crawl''"
  "base_urls ''map'' = Some ''https://api.tavily.com/map''"
  by (simp_all add: base_urls_def)

lemma respond_with_apply: "respond_with r req = Inr r"
  by (simp add: respond_with_def)

lemma ok_response_simps:
  "is_success (ok_response body)" "json_body (ok_response body) = Some body"
  by (simp_all add: ok_response_def is_success_def)

lemma returns_dict_simps:
  "returns_dict (Inl e, sent) = (Inl e, sent)"
  "returns_dict (Inr (JObject kvs), sent) = (Inr (JObject kvs), sent)"
  "snd (returns_dict out) = snd out"
  by (auto simp add: returns_dict_def split: prod.splits sum.splits json.splits)

lemma returns_dict_validate_dump:
  assumes "\<And>m. is_dict (model_dump m)"
  shows "returns_dict (validate_dump model_validate model_dump d, sent) =
         (validate_dump model_validate model_dump d, sent)"
proof (cases "model_validate d")
  case None
  then show ?thesis by (simp add: validate_dump_def returns_dict_def)
next
  case (Some m)
  with assms [of m] show ?thesis
    by (simp add: validate_dump_def returns_dict_def is_dict_def split: json.splits)
qed

lemma dumps_are_dicts:
  "is_dict (TavilySearchResponse_dump m1)"
  "is_dict (TavilyCrawlResponse_dump m2)"
  "is_dict (TavilyMapResponse_dump m3)"
  by (simp_all add: is_dict_def TavilySearchResponse_dump_def TavilyCrawlResponse_dump_def
      TavilyMapResponse_dump_def)

lemma returns_dict_dispatch:
  assumes "\<And>m. is_dict (model_dump m)"
  shows "returns_dict (dispatch key upstream name params (validate_dump model_validate model_dump)) =
         dispatch key upstream name params (validate_dump model_validate model_dump)"
proof (cases "endpoint_of name")
  case (Inl e)
  then show ?thesis by (simp add: dispatch_def returns_dict_simps)
next
  case (Inr endpoint)
  show ?thesis
  proof (cases "post_checked upstream (tool_request key endpoint params)")
    case (Pair res sent)
    show ?thesis
    proof (cases res)
      case (Inl e)
      with Pair Inr show ?thesis by (simp add: dispatch_def returns_dict_simps)
    next
      case r: (Inr response)
      show ?thesis
      proof (cases "response_json response")
        case (Inl e)
        with Pair Inr r show ?thesis by (simp add: dispatch_def returns_dict_simps)
      next
        case d: (Inr response_dict)
        with Pair Inr r show ?thesis
          by (simp add: dispatch_def returns_dict_validate_dump [OF assms])
      qed
    qed
  qed
qed

lemmas returns_dict_rules =
  returns_dict_simps
  returns_dict_dispatch [of TavilySearchResponse_dump, OF dumps_are_dicts(1)]
  returns_dict_dispatch [of TavilyCrawlResponse_dump, OF dumps_are_dicts(2)]
  returns_dict_dispatch [of TavilyMapResponse_dump, OF dumps_are_dicts(3)]

lemma returns_dict_value:
  "fst (returns_dict (Inr v, sent)) = (if is_dict v then Inr v else Inl ReturnTypeError)"
  by (cases v) (simp_all add: returns_dict_def is_dict_def)

lemma tavily_search_eq:
  "search_bind c = Inr a \<Longrightarrow> tavily_search key as_float upstream c = search key as_float upstream a"
  by (simp add: tavily_search_def search_def returns_dict_dispatch dumps_are_dicts)

lemma tavily_crawl_eq:
  "crawl_bind c = Inr a \<Longrightarrow> tavily_crawl key as_float upstream c = crawl key as_float upstream a"
  by (simp add: tavily_crawl_def crawl_def returns_dict_dispatch dumps_are_dicts)

lemma tavily_map_eq:
  "map_bind c = Inr a \<Longrightarrow> tavily_map key as_float upstream c = map_tool key as_float upstream a"
  by (simp add: tavily_map_def map_tool_def returns_dict_dispatch dumps_are_dicts)

lemma search_only_bind:
  "search_bind (search_only q) =
     Inr \<lparr>s_query = q, s_auto_parameters = False, s_topic = ''general'',
          s_search_depth = ''basic'', s_max_results = 10, s_time_range = None, s_days = 3,
          s_include_raw_content = False, s_include_answer = False, s_include_images = False,
          s_include_image_descriptions = False, s_include_domains = [],
          s_exclude_domains = [], s_country = None\<rparr>"
  by (simp add: search_bind_def search_only_def search_errors_def check_required_def
      check_literal_def check_ge_def check_le_def default_to_def)

lemma extract_only_bind:
  "extract_bind (extract_only us) =
     Inr \<lparr>e_urls = us, e_extract_depth = ''basic'', e_include_images = False,
          e_format = ''markdown''\<rparr>"
  by (simp add: extract_bind_def extract_only_def extract_errors_def check_required_def
      check_literal_def default_to_def)

lemma crawl_only_bind:
  "crawl_bind (crawl_only u i) =
     Inr \<lparr>c_url = u, c_instructions = i, c_max_depth = 1, c_max_breadth = 20, c_limit = 50,
          c_select_paths = [], c_select_domains = [], c_allow_external = False,
          c_categories = [], c_extract_depth = ''basic'', c_format = ''markdown''\<rparr>"
  by (simp add: crawl_bind_def crawl_only_def crawl_errors_def check_required_def
      check_literal_def check_literals_def check_ge_def default_to_def)

lemma map_only_bind:
  "map_bind (map_only u i) =
     Inr \<lparr>m_url = u, m_instructions = i, m_max_depth = 1, m_max_breadth = 20, m_limit = 50,
          m_select_paths = [], m_select_domains = [], m_allow_external = False,
          m_categories = []\<rparr>"
  by (simp add: map_bind_def map_only_def map_errors_def check_required_def
      check_literals_def check_ge_def default_to_def)

lemma extract_tool_success:
  assumes "upstream (tool_request key ''https://api.tavily.com/extract'' (extract_params key a)) = Inr r"
    and "is_success r"
    and "json_body r = Some body"
  shows "extract_tool key upstream a =
           (Inr body, [tool_request key ''https://api.tavily.com/extract'' (extract_params key a)])"
  unfolding extract_tool_def
  using base_urls_simps(2) assms by (rule dispatch_success)

lemma search_success:
  assumes "upstream (tool_request key ''https://api.tavily.com/search'' (search_params key a)) = Inr r"
    and "is_success r"
    and "json_body r = Some body"
  shows "search key as_float upstream a =
           (validate_dump (TavilySearchResponse_validate as_float) TavilySearchResponse_dump body,
            [tool_request key ''https://api.tavily.com/search'' (search_params key a)])"
  unfolding search_def
  using base_urls_simps(1) assms by (rule dispatch_success)

lemma crawl_success:
  assumes "upstream (tool_request key ''https://api.tavily.com/crawl'' (crawl_params key a)) = Inr r"
    and "is_success r"
    and "json_body r = Some body"
  shows "crawl key as_float upstream a =
           (validate_dump (TavilyCrawlResponse_validate as_float) TavilyCrawlResponse_dump body,
            [tool_request key ''https://api.tavily.com/crawl'' (crawl_params key a)])"
  unfolding crawl_def
  using base_urls_simps(3) assms by (rule dispatch_success)

lemma map_tool_success:
  assumes "upstream (tool_request key ''https://api.tavily.com/map'' (map_params key a)) = Inr r"
    and "is_success r"
    and "json_body r = Some body"
  shows "map_tool key as_float upstream a =
           (validate_dump (TavilyMapResponse_validate as_float) TavilyMapResponse_dump body,
            [tool_request key ''https://api.tavily.com/map'' (map_params key a)])"
  unfolding map_tool_def
  using base_urls_simps(4) assms by (rule dispatch_success)

lemma search_params_topic:
  "s_country a \<noteq> None \<Longrightarrow>
     json_get (search_params key a) ''topic'' = Some (JString ''general'')"
  by (simp add: search_params_def)

lemma search_bind_country:
  "search_bind c = Inr a \<Longrightarrow> s_country a = sc_country c"
  by (auto simp add: search_bind_def split: option.splits list.splits)

subsection \<open>The country override\<close>

text \<open>
  C2. Every request that a tavily-search call with a non-null \<^verbatim>\<open>country\<close> sends
  upstream carries \<^verbatim>\<open>topic = "general"\<close> in its payload, whatever topic the caller
  gave; a call whose arguments are accepted sends exactly one.
\<close>

theorem search_country_forces_general:
  assumes "sc_country c \<noteq> None"
  shows "(\<forall>req \<in> set (snd (tavily_search key as_float upstream c)).
            json_get (req_json req) ''topic'' = Some (JString ''general'')) \<and>
         (\<forall>a. search_bind c = Inr a \<longrightarrow>
            length (snd (tavily_search key as_float upstream c)) = 1)"
proof (cases "search_bind c")
  case (Inl e)
  then show ?thesis by (simp add: tavily_search_def returns_dict_rules)
next
  case (Inr a)
  with assms have "s_country a \<noteq> None" by (simp add: search_bind_country)
  then have "json_get (search_params key a) ''topic'' = Some (JString ''general'')"
    by (rule search_params_topic)
  with Inr show ?thesis
    by (simp add: tavily_search_def returns_dict_rules search_def dispatch_log base_urls_simps tool_request_def)
qed

theorem search_country_forces_general_witness:
  "sc_country ((search_only ''q'')\<lparr>sc_topic := Some ''news'', sc_country := Some ''france''\<rparr>) \<noteq> None \<and>
   map (\<lambda>req. json_get (req_json req) ''topic'')
     (snd (tavily_search ''k'' number_as_float
            (respond_with \<lparr>status_code = 200, json_body = None\<rparr>)
            ((search_only ''q'')\<lparr>sc_topic := Some ''news'', sc_country := Some ''france''\<rparr>))) =
     [Some (JString ''general'')]"
proof -
  let ?c = "(search_only ''q'')\<lparr>sc_topic := Some ''news'', sc_country := Some ''france''\<rparr>"
  let ?up = "respond_with \<lparr>status_code = 200, json_body = None :: real json option\<rparr>"
  have c: "sc_country ?c \<noteq> None"
    by simp
  have e: "search_errors ?c = []"
    by (simp add: search_only_def search_errors_def check_required_def check_literal_def
        check_ge_def check_le_def TopicLiteral_def CountryLiteral_def)
  have b: "search_bind ?c = Inr (projr (search_bind ?c))"
    by (simp add: search_bind_def e) (simp add: search_only_def)
  have l: "snd (tavily_search ''k'' number_as_float ?up ?c) =
      [tool_request ''k'' ''https://api.tavily.com/search''
        (search_params ''k'' (projr (search_bind ?c)))]"
    by (subst tavily_search_def, subst b)
      (simp add: search_def dispatch_log base_urls_simps returns_dict_rules)
  from search_country_forces_general [OF c, of "''k''" number_as_float ?up, THEN conjunct1]
  have "json_get (search_params ''k'' (projr (search_bind ?c))) ''topic'' =
      Some (JString ''general'' :: real json)"
    unfolding l by (simp add: tool_request_def)
  with c l show ?thesis
    by (simp add: tool_request_def)
qed

subsection \<open>Out-of-range \<^verbatim>\<open>max_results\<close>\<close>

text \<open>
  C3. A tavily-search call whose \<^verbatim>\<open>max_results\<close> is below 5 or above 20 ends with a
  validation error that names the parameter, and no request has been issued.
\<close>

theorem search_max_results_out_of_range:
  assumes "sc_max_results c = Some n" and "n < 5 \<or> 20 < n"
  shows "\<exists>errs. tavily_search key as_float upstream c = (Inl (ValidationError errs), []) \<and>
                ''max_results'' \<in> set errs"
proof -
  have "''max_results'' \<in> set (search_errors c)"
    using assms by (auto simp add: search_errors_def check_ge_def check_le_def)
  moreover from this have "search_errors c \<noteq> []" by auto
  then have "search_bind c = Inl (ValidationError (search_errors c))"
    by (auto simp add: search_bind_def split: option.splits list.splits)
  ultimately show ?thesis by (simp add: tavily_search_def returns_dict_rules)
qed

theorem search_max_results_out_of_range_witness:
  "tavily_search ''k'' number_as_float (respond_with \<lparr>status_code = 200, json_body = None\<rparr>)
       ((search_only ''q'')\<lparr>sc_max_results := Some 4\<rparr>) = (Inl (ValidationError [''max_results'']), []) \<and>
   tavily_search ''k'' number_as_float (respond_with \<lparr>status_code = 200, json_body = None\<rparr>)
       ((search_only ''q'')\<lparr>sc_max_results := Some 21\<rparr>) = (Inl (ValidationError [''max_results'']), [])"
proof -
  have e4: "search_errors ((search_only ''q'')\<lparr>sc_max_results := Some 4\<rparr>) = [''max_results'']"
    by (simp add: search_only_def search_errors_def check_required_def check_literal_def
        check_ge_def check_le_def)
  have e21: "search_errors ((search_only ''q'')\<lparr>sc_max_results := Some 21\<rparr>) = [''max_results'']"
    by (simp add: search_only_def search_errors_def check_required_def check_literal_def
        check_ge_def check_le_def)
  have b4: "search_bind ((search_only ''q'')\<lparr>sc_max_results := Some 4\<rparr>) =
      Inl (ValidationError [''max_results''])"
    by (simp add: search_bind_def e4) (simp add: search_only_def)
  have b21: "search_bind ((search_only ''q'')\<lparr>sc_max_results := Some 21\<rparr>) =
      Inl (ValidationError [''max_results''])"
    by (simp add: search_bind_def e21) (simp add: search_only_def)
  have h4: "sc_max_results ((search_only ''q'')\<lparr>sc_max_results := Some 4\<rparr>) = Some 4" by simp
  have h21: "sc_max_results ((search_only ''q'')\<lparr>sc_max_results := Some 21\<rparr>) = Some 21" by simp
  have t4: "tavily_search ''k'' number_as_float (respond_with \<lparr>status_code = 200, json_body = None\<rparr>)
       ((search_only ''q'')\<lparr>sc_max_results := Some 4\<rparr>) = (Inl (ValidationError [''max_results'']), [])"
    using search_max_results_out_of_range [OF h4, of "''k''" number_as_float
      "respond_with \<lparr>status_code = 200, json_body = None\<rparr>"] b4
    by (auto simp add: tavily_search_def returns_dict_rules)
  have t21: "tavily_search ''k'' number_as_float (respond_with \<lparr>status_code = 200, json_body = None\<rparr>)
       ((search_only ''q'')\<lparr>sc_max_results := Some 21\<rparr>) = (Inl (ValidationError [''max_results'']), [])"
    using search_max_results_out_of_range [OF h21, of "''k''" number_as_float
      "respond_with \<lparr>status_code = 200, json_body = None\<rparr>"] b21
    by (auto simp add: tavily_search_def returns_dict_rules)
  show ?thesis using t4 t21 by (rule conjI)
qed

subsection \<open>Status 401 and 429\<close>

text \<open>
  C5. For each of the four tools, when the upstream answers the call's request with
  status 401, the call ends with \<^verbatim>\<open>ValueError("Invalid API Key")\<close>, whatever the body
  of the response, and the request it sent is the only one.
\<close>

theorem status_401_invalid_api_key:
  assumes "status_code r = 401"
  shows "(search_bind cs = Inr a1 \<and>
            upstream (tool_request key ''https://api.tavily.com/search'' (search_params key a1)) = Inr r
          \<longrightarrow> tavily_search key as_float upstream cs =
                (Inl (ValueError ''Invalid API Key''),
                 [tool_request key ''https://api.tavily.com/search'' (search_params key a1)])) \<and>
         (extract_bind ce = Inr a2 \<and>
            upstream (tool_request key ''https://api.tavily.com/extract'' (extract_params key a2)) = Inr r
          \<longrightarrow> tavily_extract key upstream ce =
                (Inl (ValueError ''Invalid API Key''),
                 [tool_request key ''https://api.tavily.com/extract'' (extract_params key a2)])) \<and>
         (crawl_bind cc = Inr a3 \<and>
            upstream (tool_request key ''https://api.tavily.com/crawl'' (crawl_params key a3)) = Inr r
          \<longrightarrow> tavily_crawl key as_float upstream cc =
                (Inl (ValueError ''Invalid API Key''),
                 [tool_request key ''https://api.tavily.com/crawl'' (crawl_params key a3)])) \<and>
         (map_bind cm = Inr a4 \<and>
            upstream (tool_request key ''https://api.tavily.com/map'' (map_params key a4)) = Inr r
          \<longrightarrow> tavily_map key as_float upstream cm =
                (Inl (ValueError ''Invalid API Key''),
                 [tool_request key ''https://api.tavily.com/map'' (map_params key a4)]))"
proof (intro conjI impI)
  assume "search_bind cs = Inr a1 \<and>
    upstream (tool_request key ''https://api.tavily.com/search'' (search_params key a1)) = Inr r"
  then show "tavily_search key as_float upstream cs =
      (Inl (ValueError ''Invalid API Key''),
       [tool_request key ''https://api.tavily.com/search'' (search_params key a1)])"
    using assms by (simp add: tavily_search_def returns_dict_rules search_def dispatch_401 base_urls_simps)
next
  assume "extract_bind ce = Inr a2 \<and>
    upstream (tool_request key ''https://api.tavily.com/extract'' (extract_params key a2)) = Inr r"
  then show "tavily_extract key upstream ce =
      (Inl (ValueError ''Invalid API Key''),
       [tool_request key ''https://api.tavily.com/extract'' (extract_params key a2)])"
    using assms by (simp add: tavily_extract_def returns_dict_rules extract_tool_def dispatch_401 base_urls_simps)
next
  assume "crawl_bind cc = Inr a3 \<and>
    upstream (tool_request key ''https://api.tavily.com/crawl'' (crawl_params key a3)) = Inr r"
  then show "tavily_crawl key as_float upstream cc =
      (Inl (ValueError ''Invalid API Key''),
       [tool_request key ''https://api.tavily.com/crawl'' (crawl_params key a3)])"
    using assms by (simp add: tavily_crawl_def returns_dict_rules crawl_def dispatch_401 base_urls_simps)
next
  assume "map_bind cm = Inr a4 \<and>
    upstream (tool_request key ''https://api.tavily.com/map'' (map_params key a4)) = Inr r"
  then show "tavily_map key as_float upstream cm =
      (Inl (ValueError ''Invalid API Key''),
       [tool_request key ''https://api.tavily.com/map'' (map_params key a4)])"
    using assms by (simp add: tavily_map_def returns_dict_rules map_tool_def dispatch_401 base_urls_simps)
qed

theorem status_401_invalid_api_key_witness:
  "status_code \<lparr>status_code = 401, json_body = Some (JObject [(''detail'', JString ''x'' :: real json)])\<rparr> = 401 \<and>
   fst (tavily_search ''k'' number_as_float
         (respond_with \<lparr>status_code = 401, json_body = Some (JObject [(''detail'', JString ''x'' :: real json)])\<rparr>)
         (search_only ''q'')) = Inl (ValueError ''Invalid API Key'') \<and>
   fst (tavily_extract ''k''
         (respond_with \<lparr>status_code = 401, json_body = Some (JObject [(''detail'', JString ''x'' :: real json)])\<rparr>)
         (extract_only [''u''])) = Inl (ValueError ''Invalid API Key'') \<and>
   fst (tavily_crawl ''k'' number_as_float
         (respond_with \<lparr>status_code = 401, json_body = Some (JObject [(''detail'', JString ''x'' :: real json)])\<rparr>)
         (crawl_only ''u'' ''i'')) = Inl (ValueError ''Invalid API Key'') \<and>
   fst (tavily_map ''k'' number_as_float
         (respond_with \<lparr>status_code = 401, json_body = Some (JObject [(''detail'', JString ''x'' :: real json)])\<rparr>)
         (map_only ''u'' ''i'')) = Inl (ValueError ''Invalid API Key'')"
proof -
  have h: "status_code \<lparr>status_code = 401, json_body = Some (JObject [(''detail'', JString ''x'' :: real json)])\<rparr> = 401"
    by simp
  note T = status_401_invalid_api_key [OF h, where key = "''k''" and as_float = number_as_float
        and upstream = "respond_with \<lparr>status_code = 401, json_body = Some (JObject [(''detail'', JString ''x'' :: real json)])\<rparr>"
        and cs = "search_only ''q''" and ce = "extract_only [''u'']"
        and cc = "crawl_only ''u'' ''i''" and cm = "map_only ''u'' ''i''"
        and ?a1.0 = "projr (search_bind (search_only ''q''))"
        and ?a2.0 = "projr (extract_bind (extract_only [''u'']))"
        and ?a3.0 = "projr (crawl_bind (crawl_only ''u'' ''i''))"
        and ?a4.0 = "projr (map_bind (map_only ''u'' ''i''))"]
  have "fst (tavily_search ''k'' number_as_float
         (respond_with \<lparr>status_code = 401, json_body = Some (JObject [(''detail'', JString ''x'' :: real json)])\<rparr>)
         (search_only ''q'')) = Inl (ValueError ''Invalid API Key'')"
    using T [THEN conjunct1] by (simp add: search_only_bind respond_with_apply)
  moreover have "fst (tavily_extract ''k''
         (respond_with \<lparr>status_code = 401, json_body = Some (JObject [(''detail'', JString ''x'' :: real json)])\<rparr>)
         (extract_only [''u''])) = Inl (ValueError ''Invalid API Key'')"
    using T [THEN conjunct2, THEN conjunct1] by (simp add: extract_only_bind respond_with_apply)
  moreover have "fst (tavily_crawl ''k'' number_as_float
         (respond_with \<lparr>status_code = 401, json_body = Some (JObject [(''detail'', JString ''x'' :: real json)])\<rparr>)
         (crawl_only ''u'' ''i'')) = Inl (ValueError ''Invalid API Key'')"
    using T [THEN conjunct2, THEN conjunct2, THEN conjunct1] by (simp add: crawl_only_bind respond_with_apply)
  moreover have "fst (tavily_map ''k'' number_as_float
         (respond_with \<lparr>status_code = 401, json_body = Some (JObject [(''detail'', JString ''x'' :: real json)])\<rparr>)
         (map_only ''u'' ''i'')) = Inl (ValueError ''Invalid API Key'')"
    using T [THEN conjunct2, THEN conjunct2, THEN conjunct2] by (simp add: map_only_bind respond_with_apply)
  ultimately show ?thesis using h by blast
qed

text \<open>
  C6. For each of the four tools, when the upstream answers the call's request with
  status 429, the call ends with \<^verbatim>\<open>ValueError("Usage limit exceeded")\<close>, whatever the
  body of the response, and the request it sent is the only one.
\<close>

theorem status_429_usage_limit:
  assumes "status_code r = 429"
  shows "(search_bind cs = Inr a1 \<and>
            upstream (tool_request key ''https://api.tavily.com/search'' (search_params key a1)) = Inr r
          \<longrightarrow> tavily_search key as_float upstream cs =
                (Inl (ValueError ''Usage limit exceeded''),
                 [tool_request key ''https://api.tavily.com/search'' (search_params key a1)])) \<and>
         (extract_bind ce = Inr a2 \<and>
            upstream (tool_request key ''https://api.tavily.com/extract'' (extract_params key a2)) = Inr r
          \<longrightarrow> tavily_extract key upstream ce =
                (Inl (ValueError ''Usage limit exceeded''),
                 [tool_request key ''https://api.tavily.com/extract'' (extract_params key a2)])) \<and>
         (crawl_bind cc = Inr a3 \<and>
            upstream (tool_request key ''https://api.tavily.com/crawl'' (crawl_params key a3)) = Inr r
          \<longrightarrow> tavily_crawl key as_float upstream cc =
                (Inl (ValueError ''Usage limit exceeded''),
                 [tool_request key ''https://api.tavily.com/crawl'' (crawl_params key a3)])) \<and>
         (map_bind cm = Inr a4 \<and>
            upstream (tool_request key ''https://api.tavily.com/map'' (map_params key a4)) = Inr r
          \<longrightarrow> tavily_map key as_float upstream cm =
                (Inl (ValueError ''Usage limit exceeded''),
                 [tool_request key ''https://api.tavily.com/map'' (map_params key a4)]))"
proof (intro conjI impI)
  assume "search_bind cs = Inr a1 \<and>
    upstream (tool_request key ''https://api.tavily.com/search'' (search_params key a1)) = Inr r"
  then show "tavily_search key as_float upstream cs =
      (Inl (ValueError ''Usage limit exceeded''),
       [tool_request key ''https://api.tavily.com/search'' (search_params key a1)])"
    using assms by (simp add: tavily_search_def returns_dict_rules search_def dispatch_429 base_urls_simps)
next
  assume "extract_bind ce = Inr a2 \<and>
    upstream (tool_request key ''https://api.tavily.com/extract'' (extract_params key a2)) = Inr r"
  then show "tavily_extract key upstream ce =
      (Inl (ValueError ''Usage limit exceeded''),
       [tool_request key ''https://api.tavily.com/extract'' (extract_params key a2)])"
    using assms by (simp add: tavily_extract_def returns_dict_rules extract_tool_def dispatch_429 base_urls_simps)
next
  assume "crawl_bind cc = Inr a3 \<and>
    upstream (tool_request key ''https://api.tavily.com/crawl'' (crawl_params key a3)) = Inr r"
  then show "tavily_crawl key as_float upstream cc =
      (Inl (ValueError ''Usage limit exceeded''),
       [tool_request key ''https://api.tavily.com/crawl'' (crawl_params key a3)])"
    using assms by (simp add: tavily_crawl_def returns_dict_rules crawl_def dispatch_429 base_urls_simps)
next
  assume "map_bind cm = Inr a4 \<and>
    upstream (tool_request key ''https://api.tavily.com/map'' (map_params key a4)) = Inr r"
  then show "tavily_map key as_float upstream cm =
      (Inl (ValueError ''Usage limit exceeded''),
       [tool_request key ''https://api.tavily.com/map'' (map_params key a4)])"
    using assms by (simp add: tavily_map_def returns_dict_rules map_tool_def dispatch_429 base_urls_simps)
qed

theorem status_429_usage_limit_witness:
  "status_code \<lparr>status_code = 429, json_body = Some (JObject [(''detail'', JString ''x'' :: real json)])\<rparr> = 429 \<and>
   fst (tavily_search ''k'' number_as_float
         (respond_with \<lparr>status_code = 429, json_body = Some (JObject [(''detail'', JString ''x'' :: real json)])\<rparr>)
         (search_only ''q'')) = Inl (ValueError ''Usage limit exceeded'') \<and>
   fst (tavily_extract ''k''
         (respond_with \<lparr>status_code = 429, json_body = Some (JObject [(''detail'', JString ''x'' :: real json)])\<rparr>)
         (extract_only [''u''])) = Inl (ValueError ''Usage limit exceeded'') \<and>
   fst (tavily_crawl ''k'' number_as_float
         (respond_with \<lparr>status_code = 429, json_body = Some (JObject [(''detail'', JString ''x'' :: real json)])\<rparr>)
         (crawl_only ''u'' ''i'')) = Inl (ValueError ''Usage limit exceeded'') \<and>
   fst (tavily_map ''k'' number_as_float
         (respond_with \<lparr>status_code = 429, json_body = Some (JObject [(''detail'', JString ''x'' :: real json)])\<rparr>)
         (map_only ''u'' ''i'')) = Inl (ValueError ''Usage limit exceeded'')"
proof -
  have h: "status_code \<lparr>status_code = 429, json_body = Some (JObject [(''detail'', JString ''x'' :: real json)])\<rparr> = 429"
    by simp
  note T = status_429_usage_limit [OF h, where key = "''k''" and as_float = number_as_float
        and upstream = "respond_with \<lparr>status_code = 429, json_body = Some (JObject [(''detail'', JString ''x'' :: real json)])\<rparr>"
        and cs = "search_only ''q''" and ce = "extract_only [''u'']"
        and cc = "crawl_only ''u'' ''i''" and cm = "map_only ''u'' ''i''"
        and ?a1.0 = "projr (search_bind (search_only ''q''))"
        and ?a2.0 = "projr (extract_bind (extract_only [''u'']))"
        and ?a3.0 = "projr (crawl_bind (crawl_only ''u'' ''i''))"
        and ?a4.0 = "projr (map_bind (map_only ''u'' ''i''))"]
  have "fst (tavily_search ''k'' number_as_float
         (respond_with \<lparr>status_code = 429, json_body = Some (JObject [(''detail'', JString ''x'' :: real json)])\<rparr>)
         (search_only ''q'')) = Inl (ValueError ''Usage limit exceeded'')"
    using T [THEN conjunct1] by (simp add: search_only_bind respond_with_apply)
  moreover have "fst (tavily_extract ''k''
         (respond_with \<lparr>status_code = 429, json_body = Some (JObject [(''detail'', JString ''x'' :: real json)])\<rparr>)
         (extract_only [''u''])) = Inl (ValueError ''Usage limit exceeded'')"
    using T [THEN conjunct2, THEN conjunct1] by (simp add: extract_only_bind respond_with_apply)
  moreover have "fst (tavily_crawl ''k'' number_as_float
         (respond_with \<lparr>status_code = 429, json_body = Some (JObject [(''detail'', JString ''x'' :: real json)])\<rparr>)
         (crawl_only ''u'' ''i'')) = Inl (ValueError ''Usage limit exceeded'')"
    using T [THEN conjunct2, THEN conjunct2, THEN conjunct1] by (simp add: crawl_only_bind respond_with_apply)
  moreover have "fst (tavily_map ''k'' number_as_float
         (respond_with \<lparr>status_code = 429, json_body = Some (JObject [(''detail'', JString ''x'' :: real json)])\<rparr>)
         (map_only ''u'' ''i'')) = Inl (ValueError ''Usage limit exceeded'')"
    using T [THEN conjunct2, THEN conjunct2, THEN conjunct2] by (simp add: map_only_bind respond_with_apply)
  ultimately show ?thesis using h by blast
qed

subsection \<open>The validation accepts exactly the declared shapes\<close>

lemma validate_dump_None:
  "model_validate d = None \<Longrightarrow> validate_dump model_validate model_dump d = Inl SchemaValidationError"
  by (simp add: validate_dump_def)

lemma search_validate_needs_results:
  assumes "json_get body ''results'' = None"
  shows "TavilySearchResponse_validate as_float body = None"
  using assms
  by (cases body) (auto simp add: TavilySearchResponse_validate_def required_def
      split: Option.bind_splits)

lemma bind_Some_ex:
  "(\<exists>m. Option.bind a f = Some m) = (\<exists>x. a = Some x \<and> (\<exists>m. f x = Some m))"
  by (cases a) simp_all

lemma validate_str_fits: "(\<exists>s. validate_str j = Some s) = is_str j"
  by (cases j) (simp_all add: validate_str_def is_str_def)

lemma validate_dict_fits: "(\<exists>kvs. validate_dict j = Some kvs) = is_dict j"
  by (cases j) (simp_all add: validate_dict_def is_dict_def)

lemma as_float_fits: "(\<exists>x. as_float j = Some x) = is_float as_float j"
  by (simp add: is_float_def)

lemma required_fits:
  assumes "\<And>j. (\<exists>x. v j = Some x) = P j"
  shows "(\<exists>x. required v (map_of kvs k) = Some x) = has_field kvs k P"
  using assms by (simp add: required_def has_field_def split: option.splits)

lemma required_float_fits:
  "(\<exists>x. required as_float (map_of kvs k) = Some x) = has_field kvs k (is_float as_float)"
  by (rule required_fits) (rule as_float_fits)

lemma optional_fits:
  assumes "\<And>j. (\<exists>x. v j = Some x) = P j"
  shows "(\<exists>x. optional v (map_of kvs k) = Some x) = may_have_field kvs k P"
proof (cases "map_of kvs k")
  case None
  then show ?thesis by (simp add: optional_def may_have_field_def)
next
  case (Some j)
  then show ?thesis
    using assms [of j] by (cases j) (auto simp add: optional_def may_have_field_def)
qed

lemma those_fits: "(\<exists>ys. those (map v xs) = Some ys) = list_all (\<lambda>x. \<exists>y. v x = Some y) xs"
  by (induction xs) (auto split: option.splits)

lemma validate_list_fits:
  assumes "\<And>j. (\<exists>x. v j = Some x) = P j"
  shows "(\<exists>ys. validate_list v j = Some ys) = is_list_of P j"
  using assms by (cases j) (simp_all add: validate_list_def is_list_of_def those_fits)

lemma SearchImage_validate_fits: "(\<exists>m. SearchImage_validate j = Some m) = fits_SearchImage j"
  by (cases j)
    (simp_all add: SearchImage_validate_def fits_SearchImage_def bind_Some_ex
      required_fits [OF validate_str_fits] optional_fits [OF validate_str_fits])

lemma image_validate_fits: "(\<exists>m. image_validate j = Some m) = fits_image j"
  using SearchImage_validate_fits [of j]
  by (cases j) (auto simp add: image_validate_def fits_image_def is_str_def)

lemma SearchResult_validate_fits:
  "(\<exists>m. SearchResult_validate as_float j = Some m) = fits_SearchResult as_float j"
  by (cases j)
    (simp_all add: SearchResult_validate_def fits_SearchResult_def bind_Some_ex
      required_fits [OF validate_str_fits] optional_fits [OF validate_str_fits]
      required_float_fits)

lemma TavilySearchResponse_validate_fits:
  "(\<exists>m. TavilySearchResponse_validate as_float j = Some m) = fits_TavilySearchResponse as_float j"
  by (cases j)
    (simp_all add: TavilySearchResponse_validate_def fits_TavilySearchResponse_def bind_Some_ex
      required_fits [OF validate_str_fits] optional_fits [OF validate_str_fits]
      required_float_fits optional_fits [OF validate_dict_fits]
      optional_fits [OF validate_list_fits [OF image_validate_fits]]
      required_fits [OF validate_list_fits [OF SearchResult_validate_fits]])

lemma CrawlResult_validate_fits: "(\<exists>m. CrawlResult_validate j = Some m) = fits_CrawlResult j"
  by (cases j)
    (simp_all add: CrawlResult_validate_def fits_CrawlResult_def bind_Some_ex
      required_fits [OF validate_str_fits])

lemma TavilyCrawlResponse_validate_fits:
  "(\<exists>m. TavilyCrawlResponse_validate as_float j = Some m) = fits_TavilyCrawlResponse as_float j"
  by (cases j)
    (simp_all add: TavilyCrawlResponse_validate_def fits_TavilyCrawlResponse_def bind_Some_ex
      required_fits [OF validate_str_fits] required_float_fits
      required_fits [OF validate_list_fits [OF CrawlResult_validate_fits]])

lemma TavilyMapResponse_validate_fits:
  "(\<exists>m. TavilyMapResponse_validate as_float j = Some m) = fits_TavilyMapResponse as_float j"
  by (cases j)
    (simp_all add: TavilyMapResponse_validate_def fits_TavilyMapResponse_def bind_Some_ex
      required_fits [OF validate_str_fits] required_float_fits
      required_fits [OF validate_list_fits [OF validate_str_fits]])

lemma validate_dump_fits:
  assumes "\<And>j. (\<exists>m. model_validate j = Some m) = fits j"
  shows "(fits d \<longrightarrow> (\<exists>m. model_validate d = Some m \<and>
            validate_dump model_validate model_dump d = Inr (model_dump m))) \<and>
         (\<not> fits d \<longrightarrow> validate_dump model_validate model_dump d = Inl SchemaValidationError)"
  using assms [of d] by (cases "model_validate d") (auto simp add: validate_dump_def)

subsection \<open>What a validated value looks like\<close>

lemma those_list_all2:
  "those (map v xs) = Some ys \<Longrightarrow> list_all2 (\<lambda>x y. v x = Some y) xs ys"
  by (induction xs arbitrary: ys) (auto split: option.splits)

lemma validated_list_dumped:
  assumes "those (map v xs) = Some ms"
    and "\<And>x m. v x = Some m \<Longrightarrow> P x (dump m)"
  shows "list_all2 P xs (map dump ms)"
proof -
  have "list_all2 (\<lambda>x m. v x = Some m) xs ms"
    using assms(1) by (rule those_list_all2)
  then have "list_all2 (\<lambda>x m. P x (dump m)) xs ms"
    by (rule list_all2_mono) (rule assms(2))
  then show ?thesis by (simp add: list_all2_map2)
qed

lemma optional_absent: "optional v None = Some None"
  by (simp add: optional_def)

lemma SearchResult_dumped:
  assumes "SearchResult_validate as_float x = Some m"
  shows "dumped_as SearchResult_fields [''published_date'', ''raw_content''] x (SearchResult_dump m)"
  using assms
  by (cases x)
    (auto simp add: SearchResult_validate_def SearchResult_dump_def SearchResult_fields_def
      dumped_as_def nulls_filled_def optional_absent json_opt_str_def split: Option.bind_splits)

lemma SearchImage_dumped:
  assumes "SearchImage_validate x = Some m"
  shows "dumped_as SearchImage_fields [''description''] x (SearchImage_dump m)"
  using assms
  by (cases x)
    (auto simp add: SearchImage_validate_def SearchImage_dump_def SearchImage_fields_def
      dumped_as_def nulls_filled_def optional_absent json_opt_str_def split: Option.bind_splits)

lemma image_dumped:
  assumes "image_validate x = Some i"
  shows "image_dumped_as x (image_dump i)"
  using assms SearchImage_dumped [of x]
  by (cases x) (auto simp add: image_validate_def image_dumped_as_def image_dump_def)

lemma CrawlResult_dumped:
  assumes "CrawlResult_validate x = Some m"
  shows "dumped_as CrawlResult_fields [] x (CrawlResult_dump m)"
  using assms
  by (cases x)
    (auto simp add: CrawlResult_validate_def CrawlResult_dump_def CrawlResult_fields_def
      dumped_as_def nulls_filled_def split: Option.bind_splits)

lemma search_validate_parts:
  assumes "TavilySearchResponse_validate as_float body = Some m"
  shows "\<exists>kvs. body = JObject kvs \<and>
           optional validate_str (map_of kvs ''answer'') = Some (tsr_answer m) \<and>
           optional (validate_list image_validate) (map_of kvs ''images'') = Some (tsr_images m) \<and>
           required (validate_list (SearchResult_validate as_float)) (map_of kvs ''results'') =
             Some (tsr_results m) \<and>
           optional validate_dict (map_of kvs ''auto_parameters'') = Some (tsr_auto_parameters m)"
  using assms
  by (cases body) (auto simp add: TavilySearchResponse_validate_def split: Option.bind_splits)

lemma required_list_parts:
  assumes "required (validate_list v) (map_of kvs k) = Some ms"
  shows "those (map v (json_list (JObject kvs) k)) = Some ms"
  using assms
  by (auto simp add: required_def validate_list_def json_list_def split: option.splits json.splits)

lemma optional_list_parts:
  assumes "optional (validate_list v) (map_of kvs k) = Some ms"
  shows "(ms = None \<and> json_list (JObject kvs) k = []) \<or>
         (\<exists>ys. ms = Some ys \<and> those (map v (json_list (JObject kvs) k)) = Some ys)"
  using assms
  by (auto simp add: optional_def validate_list_def json_list_def split: option.splits json.splits)

lemma search_dumped:
  assumes "TavilySearchResponse_validate as_float body = Some m"
  shows "dumped_as TavilySearchResponse_fields [''answer'', ''images'', ''auto_parameters'']
           body (TavilySearchResponse_dump m) \<and>
         list_all2 (dumped_as SearchResult_fields [''published_date'', ''raw_content''])
           (json_list body ''results'') (json_list (TavilySearchResponse_dump m) ''results'') \<and>
         list_all2 image_dumped_as
           (json_list body ''images'') (json_list (TavilySearchResponse_dump m) ''images'')"
proof -
  from search_validate_parts [OF assms] obtain kvs where body: "body = JObject kvs"
    and a: "optional validate_str (map_of kvs ''answer'') = Some (tsr_answer m)"
    and i: "optional (validate_list image_validate) (map_of kvs ''images'') = Some (tsr_images m)"
    and r: "required (validate_list (SearchResult_validate as_float)) (map_of kvs ''results'') =
             Some (tsr_results m)"
    and p: "optional validate_dict (map_of kvs ''auto_parameters'') = Some (tsr_auto_parameters m)"
    by blast
  have na: "map_of kvs ''answer'' = None \<longrightarrow> tsr_answer m = None"
    using a by (auto simp add: optional_absent)
  have ni: "map_of kvs ''images'' = None \<longrightarrow> tsr_images m = None"
    using i by (auto simp add: optional_absent)
  have np: "map_of kvs ''auto_parameters'' = None \<longrightarrow> tsr_auto_parameters m = None"
    using p by (auto simp add: optional_absent)
  have top: "dumped_as TavilySearchResponse_fields [''answer'', ''images'', ''auto_parameters'']
      body (TavilySearchResponse_dump m)"
    using na ni np
    by (simp add: body dumped_as_def nulls_filled_def TavilySearchResponse_dump_def
        TavilySearchResponse_fields_def json_opt_str_def)
  have "list_all2 (dumped_as SearchResult_fields [''published_date'', ''raw_content''])
      (json_list body ''results'') (map SearchResult_dump (tsr_results m))"
    unfolding body
    using required_list_parts [OF r] SearchResult_dumped by (rule validated_list_dumped)
  then have res: "list_all2 (dumped_as SearchResult_fields [''published_date'', ''raw_content''])
      (json_list body ''results'') (json_list (TavilySearchResponse_dump m) ''results'')"
    by (simp add: json_list_def TavilySearchResponse_dump_def)
  have img: "list_all2 image_dumped_as
      (json_list body ''images'') (json_list (TavilySearchResponse_dump m) ''images'')"
  proof (cases "tsr_images m")
    case None
    with optional_list_parts [OF i] show ?thesis
      by (simp add: body json_list_def TavilySearchResponse_dump_def)
  next
    case (Some ys)
    with optional_list_parts [OF i]
    have "those (map image_validate (json_list (JObject kvs) ''images'')) = Some ys"
      by simp
    then have "list_all2 image_dumped_as (json_list (JObject kvs) ''images'') (map image_dump ys)"
      using image_dumped by (rule validated_list_dumped)
    with Some show ?thesis
      by (simp add: body json_list_def TavilySearchResponse_dump_def)
  qed
  from top res img show ?thesis by blast
qed

lemma crawl_dumped:
  assumes "TavilyCrawlResponse_validate as_float body = Some m"
  shows "dumped_as TavilyCrawlResponse_fields [] body (TavilyCrawlResponse_dump m) \<and>
         list_all2 (dumped_as CrawlResult_fields [])
           (json_list body ''results'') (json_list (TavilyCrawlResponse_dump m) ''results'')"
proof -
  from assms obtain kvs where body: "body = JObject kvs"
    and r: "required (validate_list CrawlResult_validate) (map_of kvs ''results'') =
             Some (tcr_results m)"
    by (cases body) (auto simp add: TavilyCrawlResponse_validate_def split: Option.bind_splits)
  have "list_all2 (dumped_as CrawlResult_fields [])
      (json_list body ''results'') (map CrawlResult_dump (tcr_results m))"
    unfolding body
    using required_list_parts [OF r] CrawlResult_dumped by (rule validated_list_dumped)
  then show ?thesis
    by (simp add: json_list_def TavilyCrawlResponse_dump_def dumped_as_def nulls_filled_def
        TavilyCrawlResponse_fields_def)
qed

lemma those_validate_str:
  "those (map validate_str xs) = Some ss \<Longrightarrow> map JString ss = xs"
  by (induction xs arbitrary: ss)
    (auto simp add: validate_str_def split: option.splits json.splits)

lemma map_dumped:
  assumes "TavilyMapResponse_validate as_float body = Some m"
  shows "dumped_as TavilyMapResponse_fields [] body (TavilyMapResponse_dump m) \<and>
         json_list (TavilyMapResponse_dump m) ''results'' = json_list body ''results''"
proof -
  from assms obtain kvs where body: "body = JObject kvs"
    and r: "required (validate_list validate_str) (map_of kvs ''results'') = Some (tmr_results m)"
    by (cases body) (auto simp add: TavilyMapResponse_validate_def split: Option.bind_splits)
  have "map JString (tmr_results m) = json_list body ''results''"
    unfolding body using required_list_parts [OF r] by (rule those_validate_str)
  then show ?thesis
    by (simp add: json_list_def TavilyMapResponse_dump_def dumped_as_def nulls_filled_def
        TavilyMapResponse_fields_def json_str_list_def)
qed

lemma search_validate_same_fields:
  assumes "same_fields TavilySearchResponse_fields x y"
  shows "TavilySearchResponse_validate as_float x = TavilySearchResponse_validate as_float y"
  using assms
  by (cases x; cases y)
    (simp_all add: same_fields_def TavilySearchResponse_fields_def
      TavilySearchResponse_validate_def required_def)

lemma crawl_validate_same_fields:
  assumes "same_fields TavilyCrawlResponse_fields x y"
  shows "TavilyCrawlResponse_validate as_float x = TavilyCrawlResponse_validate as_float y"
  using assms
  by (cases x; cases y)
    (simp_all add: same_fields_def TavilyCrawlResponse_fields_def
      TavilyCrawlResponse_validate_def required_def)

lemma map_validate_same_fields:
  assumes "same_fields TavilyMapResponse_fields x y"
  shows "TavilyMapResponse_validate as_float x = TavilyMapResponse_validate as_float y"
  using assms
  by (cases x; cases y)
    (simp_all add: same_fields_def TavilyMapResponse_fields_def
      TavilyMapResponse_validate_def required_def)

subsection \<open>The example bodies\<close>

lemma search_body_fits: "fits_TavilySearchResponse number_as_float search_body"
  by (simp add: fits_TavilySearchResponse_def search_body_def has_field_def may_have_field_def
      is_str_def is_list_of_def fits_image_def fits_SearchImage_def fits_SearchResult_def
      is_float_def number_as_float_def)

lemma crawl_body_fits: "fits_TavilyCrawlResponse number_as_float crawl_body"
  by (simp add: fits_TavilyCrawlResponse_def crawl_body_def has_field_def is_str_def
      is_list_of_def fits_CrawlResult_def is_float_def number_as_float_def)

lemma map_body_fits: "fits_TavilyMapResponse number_as_float map_body"
  by (simp add: fits_TavilyMapResponse_def map_body_def has_field_def is_str_def
      is_list_of_def is_float_def number_as_float_def)

lemma search_body_misfits:
  "\<not> fits_TavilyCrawlResponse number_as_float search_body"
  "\<not> fits_TavilyMapResponse number_as_float search_body"
  by (simp_all add: fits_TavilyCrawlResponse_def fits_TavilyMapResponse_def search_body_def
      has_field_def)

lemma search_body_dump:
  "TavilySearchResponse_validate number_as_float search_body = Some m \<Longrightarrow>
   TavilySearchResponse_dump m =
     JObject
      [(''query'', JString ''q''),
       (''answer'', JNull),
       (''images'', JArray [JString ''i'', JObject [(''url'', JString ''j''), (''description'', JNull)]]),
       (''results'', JArray
          [JObject
            [(''title'', JString ''t''), (''url'', JString ''u''), (''content'', JString ''c''),
             (''score'', JFloat (1 / 2)), (''published_date'', JNull), (''raw_content'', JNull)]]),
       (''response_time'', JFloat 1),
       (''auto_parameters'', JNull)]"
  by (auto simp add: search_body_def TavilySearchResponse_validate_def
      SearchResult_validate_def SearchImage_validate_def image_validate_def required_def
      optional_def validate_str_def validate_list_def number_as_float_def
      TavilySearchResponse_dump_def SearchResult_dump_def SearchImage_dump_def image_dump_def
      json_opt_str_def)

lemma crawl_body_dump:
  "TavilyCrawlResponse_validate number_as_float crawl_body = Some m \<Longrightarrow>
   TavilyCrawlResponse_dump m =
     JObject
      [(''base_url'', JString ''b''),
       (''results'', JArray [JObject [(''url'', JString ''u''), (''raw_content'', JString ''c'')]]),
       (''response_time'', JFloat (1 / 2))]"
  by (auto simp add: crawl_body_def TavilyCrawlResponse_validate_def CrawlResult_validate_def
      required_def validate_str_def validate_list_def number_as_float_def
      TavilyCrawlResponse_dump_def CrawlResult_dump_def)

lemma map_body_dump:
  "TavilyMapResponse_validate number_as_float map_body = Some m \<Longrightarrow>
   TavilyMapResponse_dump m =
     JObject
      [(''base_url'', JString ''b''),
       (''results'', JArray [JString ''u'']),
       (''response_time'', JFloat (1 / 2))]"
  by (auto simp add: map_body_def TavilyMapResponse_validate_def
      required_def validate_str_def validate_list_def number_as_float_def
      TavilyMapResponse_dump_def json_str_list_def)

lemma search_body_result:
  "fst (tavily_search ''k'' number_as_float (respond_with (ok_response search_body))
         (search_only ''q'')) =
     Inr (JObject
      [(''query'', JString ''q''),
       (''answer'', JNull),
       (''images'', JArray [JString ''i'', JObject [(''url'', JString ''j''), (''description'', JNull)]]),
       (''results'', JArray
          [JObject
            [(''title'', JString ''t''), (''url'', JString ''u''), (''content'', JString ''c''),
             (''score'', JFloat (1 / 2)), (''published_date'', JNull), (''raw_content'', JNull)]]),
       (''response_time'', JFloat 1),
       (''auto_parameters'', JNull)])"
proof -
  obtain m where m: "TavilySearchResponse_validate number_as_float search_body = Some m"
    using search_body_fits TavilySearchResponse_validate_fits [of number_as_float search_body]
    by blast
  show ?thesis
    by (simp add: tavily_search_eq [OF search_only_bind]
        search_success [where upstream = "respond_with (ok_response search_body)",
          OF respond_with_apply ok_response_simps]
        validate_dump_def m search_body_dump [OF m])
qed

lemma crawl_body_result:
  "fst (tavily_crawl ''k'' number_as_float (respond_with (ok_response crawl_body))
         (crawl_only ''u'' ''i'')) =
     Inr (JObject
      [(''base_url'', JString ''b''),
       (''results'', JArray [JObject [(''url'', JString ''u''), (''raw_content'', JString ''c'')]]),
       (''response_time'', JFloat (1 / 2))])"
proof -
  obtain m where m: "TavilyCrawlResponse_validate number_as_float crawl_body = Some m"
    using crawl_body_fits TavilyCrawlResponse_validate_fits [of number_as_float crawl_body]
    by blast
  show ?thesis
    by (simp add: tavily_crawl_eq [OF crawl_only_bind]
        crawl_success [where upstream = "respond_with (ok_response crawl_body)",
          OF respond_with_apply ok_response_simps]
        validate_dump_def m crawl_body_dump [OF m])
qed

lemma map_body_result:
  "fst (tavily_map ''k'' number_as_float (respond_with (ok_response map_body))
         (map_only ''u'' ''i'')) =
     Inr (JObject
      [(''base_url'', JString ''b''),
       (''results'', JArray [JString ''u'']),
       (''response_time'', JFloat (1 / 2))])"
proof -
  obtain m where m: "TavilyMapResponse_validate number_as_float map_body = Some m"
    using map_body_fits TavilyMapResponse_validate_fits [of number_as_float map_body]
    by blast
  show ?thesis
    by (simp add: tavily_map_eq [OF map_only_bind]
        map_tool_success [where upstream = "respond_with (ok_response map_body)",
          OF respond_with_apply ok_response_simps]
        validate_dump_def m map_body_dump [OF m])
qed

lemma json_list_is_dict: "json_list body k \<noteq> [] \<Longrightarrow> is_dict body"
  by (cases body) (simp_all add: json_list_def is_dict_def)

lemma extract_returns_body:
  assumes "extract_bind c = Inr a"
    and "upstream (tool_request key ''https://api.tavily.com/extract'' (extract_params key a)) = Inr r"
    and "is_success r"
    and "json_body r = Some body"
    and "is_dict body"
  shows "tavily_extract key upstream c =
           (Inr body, [tool_request key ''https://api.tavily.com/extract'' (extract_params key a)])"
  using assms(1,5) extract_tool_success [where upstream = upstream, OF assms(2,3,4)]
  by (cases body) (simp_all add: tavily_extract_def returns_dict_simps is_dict_def)

subsection \<open>Extract returns the body, the other tools validate it\<close>

text \<open>
  C1, as the claim states it, fails: not every successful response has its parsed body
  returned by tavily-extract. The body \<^verbatim>\<open>[1, 2]\<close> is JSON and not an object; the
  function \<^verbatim>\<open>extract\<close> returns it, and the tool, which declares the return type
  \<^verbatim>\<open>dict[str, Any]\<close>, ends with an error.
\<close>

theorem extract_non_dict_counterexample:
  "is_success (ok_response list_body) \<and>
   json_body (ok_response list_body) = Some list_body \<and>
   fst (extract_tool ''k'' (respond_with (ok_response list_body))
         \<lparr>e_urls = [''u''], e_extract_depth = ''basic'', e_include_images = False,
          e_format = ''markdown''\<rparr>) = Inr list_body \<and>
   fst (tavily_extract ''k'' (respond_with (ok_response list_body)) (extract_only [''u''])) =
     Inl ReturnTypeError"
proof -
  have t: "extract_tool ''k'' (respond_with (ok_response list_body))
      \<lparr>e_urls = [''u''], e_extract_depth = ''basic'', e_include_images = False,
       e_format = ''markdown''\<rparr> =
    (Inr list_body, [tool_request ''k'' ''https://api.tavily.com/extract''
      (extract_params ''k'' \<lparr>e_urls = [''u''], e_extract_depth = ''basic'',
         e_include_images = False, e_format = ''markdown''\<rparr>)])"
    by (rule extract_tool_success [where upstream = "respond_with (ok_response list_body)",
        OF respond_with_apply ok_response_simps])
  have "fst (tavily_extract ''k'' (respond_with (ok_response list_body)) (extract_only [''u''])) =
      Inl ReturnTypeError"
    by (simp add: tavily_extract_def extract_only_bind t) (simp add: returns_dict_def list_body_def)
  with t show ?thesis
    by (simp add: ok_response_simps)
qed

text \<open>
  C1, amended. On a response with a success status and a JSON body: the function
  \<^verbatim>\<open>extract\<close> returns the body as it is, and the tavily-extract tool returns it
  whenever it is a dict, with no check of its keys or values; tavily-search, tavily-crawl
  and tavily-map return a value exactly when the body fits the shape their schema
  declares, namely the dump of the validated body, and end with the schema error
  otherwise.
\<close>

theorem extract_raw_others_validated:
  assumes "is_success r" and "json_body r = Some body"
  shows "(extract_bind ce = Inr a2 \<and>
            upstream (tool_request key ''https://api.tavily.com/extract'' (extract_params key a2)) = Inr r
          \<longrightarrow> fst (extract_tool key upstream a2) = Inr body \<and>
              fst (tavily_extract key upstream ce) =
                (if is_dict body then Inr body else Inl ReturnTypeError)) \<and>
         (search_bind cs = Inr a1 \<and>
            upstream (tool_request key ''https://api.tavily.com/search'' (search_params key a1)) = Inr r
          \<longrightarrow> (fits_TavilySearchResponse as_float body \<longrightarrow>
                (\<exists>m. TavilySearchResponse_validate as_float body = Some m \<and>
                     fst (tavily_search key as_float upstream cs) =
                       Inr (TavilySearchResponse_dump m))) \<and>
              (\<not> fits_TavilySearchResponse as_float body \<longrightarrow>
                fst (tavily_search key as_float upstream cs) = Inl SchemaValidationError)) \<and>
         (crawl_bind cc = Inr a3 \<and>
            upstream (tool_request key ''https://api.tavily.com/crawl'' (crawl_params key a3)) = Inr r
          \<longrightarrow> (fits_TavilyCrawlResponse as_float body \<longrightarrow>
                (\<exists>m. TavilyCrawlResponse_validate as_float body = Some m \<and>
                     fst (tavily_crawl key as_float upstream cc) =
                       Inr (TavilyCrawlResponse_dump m))) \<and>
              (\<not> fits_TavilyCrawlResponse as_float body \<longrightarrow>
                fst (tavily_crawl key as_float upstream cc) = Inl SchemaValidationError)) \<and>
         (map_bind cm = Inr a4 \<and>
            upstream (tool_request key ''https://api.tavily.com/map'' (map_params key a4)) = Inr r
          \<longrightarrow> (fits_TavilyMapResponse as_float body \<longrightarrow>
                (\<exists>m. TavilyMapResponse_validate as_float body = Some m \<and>
                     fst (tavily_map key as_float upstream cm) =
                       Inr (TavilyMapResponse_dump m))) \<and>
              (\<not> fits_TavilyMapResponse as_float body \<longrightarrow>
                fst (tavily_map key as_float upstream cm) = Inl SchemaValidationError))"
proof -
  have E: "fst (extract_tool key upstream a2) = Inr body \<and>
      fst (tavily_extract key upstream ce) = (if is_dict body then Inr body else Inl ReturnTypeError)"
    if "extract_bind ce = Inr a2"
      and "upstream (tool_request key ''https://api.tavily.com/extract'' (extract_params key a2)) = Inr r"
    using that extract_tool_success [where upstream = upstream, OF that(2) assms]
    by (simp add: tavily_extract_def returns_dict_value)
  have S: "(fits_TavilySearchResponse as_float body \<longrightarrow>
        (\<exists>m. TavilySearchResponse_validate as_float body = Some m \<and>
             fst (tavily_search key as_float upstream cs) = Inr (TavilySearchResponse_dump m))) \<and>
      (\<not> fits_TavilySearchResponse as_float body \<longrightarrow>
        fst (tavily_search key as_float upstream cs) = Inl SchemaValidationError)"
    if "search_bind cs = Inr a1"
      and "upstream (tool_request key ''https://api.tavily.com/search'' (search_params key a1)) = Inr r"
    using validate_dump_fits [of "TavilySearchResponse_validate as_float"
        "fits_TavilySearchResponse as_float" body TavilySearchResponse_dump,
        OF TavilySearchResponse_validate_fits]
    by (simp add: tavily_search_eq [OF that(1)] search_success [where upstream = upstream, OF that(2) assms])
  have C: "(fits_TavilyCrawlResponse as_float body \<longrightarrow>
        (\<exists>m. TavilyCrawlResponse_validate as_float body = Some m \<and>
             fst (tavily_crawl key as_float upstream cc) = Inr (TavilyCrawlResponse_dump m))) \<and>
      (\<not> fits_TavilyCrawlResponse as_float body \<longrightarrow>
        fst (tavily_crawl key as_float upstream cc) = Inl SchemaValidationError)"
    if "crawl_bind cc = Inr a3"
      and "upstream (tool_request key ''https://api.tavily.com/crawl'' (crawl_params key a3)) = Inr r"
    using validate_dump_fits [of "TavilyCrawlResponse_validate as_float"
        "fits_TavilyCrawlResponse as_float" body TavilyCrawlResponse_dump,
        OF TavilyCrawlResponse_validate_fits]
    by (simp add: tavily_crawl_eq [OF that(1)] crawl_success [where upstream = upstream, OF that(2) assms])
  have M: "(fits_TavilyMapResponse as_float body \<longrightarrow>
        (\<exists>m. TavilyMapResponse_validate as_float body = Some m \<and>
             fst (tavily_map key as_float upstream cm) = Inr (TavilyMapResponse_dump m))) \<and>
      (\<not> fits_TavilyMapResponse as_float body \<longrightarrow>
        fst (tavily_map key as_float upstream cm) = Inl SchemaValidationError)"
    if "map_bind cm = Inr a4"
      and "upstream (tool_request key ''https://api.tavily.com/map'' (map_params key a4)) = Inr r"
    using validate_dump_fits [of "TavilyMapResponse_validate as_float"
        "fits_TavilyMapResponse as_float" body TavilyMapResponse_dump,
        OF TavilyMapResponse_validate_fits]
    by (simp add: tavily_map_eq [OF that(1)] map_tool_success [where upstream = upstream, OF that(2) assms])
  from E S C M show ?thesis by blast
qed

theorem extract_raw_others_validated_witness:
  "is_success (ok_response search_body) \<and>
   is_dict search_body \<and>
   fst (tavily_extract ''k'' (respond_with (ok_response search_body)) (extract_only [''u''])) =
     Inr search_body \<and>
   fits_TavilySearchResponse number_as_float search_body \<and>
   fst (tavily_search ''k'' number_as_float (respond_with (ok_response search_body))
         (search_only ''q'')) =
     Inr (JObject
      [(''query'', JString ''q''),
       (''answer'', JNull),
       (''images'', JArray [JString ''i'', JObject [(''url'', JString ''j''), (''description'', JNull)]]),
       (''results'', JArray
          [JObject
            [(''title'', JString ''t''), (''url'', JString ''u''), (''content'', JString ''c''),
             (''score'', JFloat (1 / 2)), (''published_date'', JNull), (''raw_content'', JNull)]]),
       (''response_time'', JFloat 1),
       (''auto_parameters'', JNull)]) \<and>
   \<not> fits_TavilyCrawlResponse number_as_float search_body \<and>
   fst (tavily_crawl ''k'' number_as_float (respond_with (ok_response search_body))
         (crawl_only ''u'' ''i'')) = Inl SchemaValidationError \<and>
   \<not> fits_TavilyMapResponse number_as_float search_body \<and>
   fst (tavily_map ''k'' number_as_float (respond_with (ok_response search_body))
         (map_only ''u'' ''i'')) = Inl SchemaValidationError"
proof -
  let ?up = "respond_with (ok_response search_body)"
  note T = extract_raw_others_validated [OF ok_response_simps, where key = "''k''"
        and as_float = number_as_float and body = search_body and upstream = ?up
        and cs = "search_only ''q''" and ce = "extract_only [''u'']"
        and cc = "crawl_only ''u'' ''i''" and cm = "map_only ''u'' ''i''"
        and ?a1.0 = "projr (search_bind (search_only ''q''))"
        and ?a2.0 = "projr (extract_bind (extract_only [''u'']))"
        and ?a3.0 = "projr (crawl_bind (crawl_only ''u'' ''i''))"
        and ?a4.0 = "projr (map_bind (map_only ''u'' ''i''))"]
  have d: "is_dict search_body" by (simp add: is_dict_def search_body_def)
  have e: "fst (tavily_extract ''k'' ?up (extract_only [''u''])) = Inr search_body"
    using T [THEN conjunct1] d by (simp add: extract_only_bind respond_with_apply)
  have "\<exists>m. TavilySearchResponse_validate number_as_float search_body = Some m \<and>
      fst (tavily_search ''k'' number_as_float ?up (search_only ''q'')) =
        Inr (TavilySearchResponse_dump m)"
    using T [THEN conjunct2, THEN conjunct1] search_body_fits
    by (simp add: search_only_bind respond_with_apply)
  then have s: "fst (tavily_search ''k'' number_as_float ?up (search_only ''q'')) =
     Inr (JObject
      [(''query'', JString ''q''),
       (''answer'', JNull),
       (''images'', JArray [JString ''i'', JObject [(''url'', JString ''j''), (''description'', JNull)]]),
       (''results'', JArray
          [JObject
            [(''title'', JString ''t''), (''url'', JString ''u''), (''content'', JString ''c''),
             (''score'', JFloat (1 / 2)), (''published_date'', JNull), (''raw_content'', JNull)]]),
       (''response_time'', JFloat 1),
       (''auto_parameters'', JNull)])"
    using search_body_dump by auto
  have c: "fst (tavily_crawl ''k'' number_as_float ?up (crawl_only ''u'' ''i'')) =
      Inl SchemaValidationError"
    using T [THEN conjunct2, THEN conjunct2, THEN conjunct1] search_body_misfits(1)
    by (simp add: crawl_only_bind respond_with_apply)
  have m: "fst (tavily_map ''k'' number_as_float ?up (map_only ''u'' ''i'')) =
      Inl SchemaValidationError"
    using T [THEN conjunct2, THEN conjunct2, THEN conjunct2] search_body_misfits(2)
    by (simp add: map_only_bind respond_with_apply)
  from d e s c m search_body_fits search_body_misfits ok_response_simps(1) [of search_body]
  show ?thesis by blast
qed

text \<open>
  C4. A tavily-search call whose response has a success status and a JSON body without
  the field \<^verbatim>\<open>results\<close> ends with the schema error; nothing is returned.
\<close>

theorem search_missing_results_rejected:
  assumes "search_bind c = Inr a"
    and "upstream (tool_request key ''https://api.tavily.com/search'' (search_params key a)) = Inr r"
    and "is_success r"
    and "json_body r = Some body"
    and "json_get body ''results'' = None"
  shows "tavily_search key as_float upstream c =
           (Inl SchemaValidationError,
            [tool_request key ''https://api.tavily.com/search'' (search_params key a)])"
proof -
  have "TavilySearchResponse_validate as_float body = None"
    using assms(5) by (rule search_validate_needs_results)
  then have "validate_dump (TavilySearchResponse_validate as_float) TavilySearchResponse_dump body =
      Inl SchemaValidationError"
    by (rule validate_dump_None)
  moreover have "search key as_float upstream a =
      (validate_dump (TavilySearchResponse_validate as_float) TavilySearchResponse_dump body,
       [tool_request key ''https://api.tavily.com/search'' (search_params key a)])"
    unfolding search_def
    using base_urls_simps(1) assms(2,3,4) by (rule dispatch_success)
  ultimately show ?thesis
    using assms(1) by (simp add: tavily_search_def returns_dict_rules)
qed

theorem search_missing_results_rejected_witness:
  "is_success \<lparr>status_code = 200,
      json_body = Some (JObject [(''query'', JString ''q''), (''response_time'', JFloat (1 / 2 :: real))])\<rparr> \<and>
   json_get (JObject [(''query'', JString ''q''), (''response_time'', JFloat (1 / 2 :: real))]) ''results'' = None \<and>
   fst (tavily_search ''k'' number_as_float
         (respond_with \<lparr>status_code = 200,
            json_body = Some (JObject [(''query'', JString ''q''), (''response_time'', JFloat (1 / 2))])\<rparr>)
         (search_only ''q'')) = Inl SchemaValidationError"
proof -
  let ?body = "JObject [(''query'', JString ''q''), (''response_time'', JFloat (1 / 2 :: real))]"
  let ?r = "\<lparr>status_code = 200, json_body = Some ?body\<rparr>"
  have s: "is_success ?r" by (simp add: is_success_def)
  have g: "json_get ?body ''results'' = None" by simp
  have b: "search_bind (search_only ''q'') = Inr (projr (search_bind (search_only ''q'')))"
    by (simp add: search_only_bind)
  have j: "json_body ?r = Some ?body" by simp
  from search_missing_results_rejected [OF b respond_with_apply s j g, of "''k''" number_as_float]
  have "fst (tavily_search ''k'' number_as_float (respond_with ?r) (search_only ''q'')) =
      Inl SchemaValidationError"
    by simp
  with s g show ?thesis by blast
qed

subsection \<open>The keys of a validated value\<close>

text \<open>
  C10. For a successful response whose body fits the schema of tavily-search,
  tavily-crawl or tavily-map, the tool returns a dict whose keys are exactly the fields
  the schema declares, in declaration order. Every optional field the body leaves out
  is null in it: \<^verbatim>\<open>answer\<close>, \<^verbatim>\<open>images\<close> and \<^verbatim>\<open>auto_parameters\<close> of the search
  response, \<^verbatim>\<open>published_date\<close> and \<^verbatim>\<open>raw_content\<close> of each of its results,
  \<^verbatim>\<open>description\<close> of each image given as a dict; each entry of \<^verbatim>\<open>results\<close> and each
  such image has exactly the keys of its class. Keys the schema does not declare,
  wherever they stand in the body, are neither rejected nor kept: two bodies that agree
  on the declared fields give the same outcome, value or error.
\<close>

theorem validated_output_declared_keys:
  assumes "is_success r" and "json_body r = Some body"
  shows "(search_bind cs = Inr a1 \<and>
            upstream (tool_request key ''https://api.tavily.com/search'' (search_params key a1)) = Inr r
          \<longrightarrow> (fits_TavilySearchResponse as_float body \<longrightarrow>
                (\<exists>d. fst (tavily_search key as_float upstream cs) = Inr d \<and>
                     dumped_as TavilySearchResponse_fields [''answer'', ''images'', ''auto_parameters'']
                       body d \<and>
                     list_all2 (dumped_as SearchResult_fields [''published_date'', ''raw_content''])
                       (json_list body ''results'') (json_list d ''results'') \<and>
                     list_all2 image_dumped_as (json_list body ''images'') (json_list d ''images''))) \<and>
              (upstream' (tool_request key ''https://api.tavily.com/search'' (search_params key a1)) =
                 Inr r' \<and> is_success r' \<and> json_body r' = Some body' \<and>
               same_fields TavilySearchResponse_fields body body' \<longrightarrow>
                 fst (tavily_search key as_float upstream' cs) =
                 fst (tavily_search key as_float upstream cs))) \<and>
         (crawl_bind cc = Inr a3 \<and>
            upstream (tool_request key ''https://api.tavily.com/crawl'' (crawl_params key a3)) = Inr r
          \<longrightarrow> (fits_TavilyCrawlResponse as_float body \<longrightarrow>
                (\<exists>d. fst (tavily_crawl key as_float upstream cc) = Inr d \<and>
                     dumped_as TavilyCrawlResponse_fields [] body d \<and>
                     list_all2 (dumped_as CrawlResult_fields [])
                       (json_list body ''results'') (json_list d ''results''))) \<and>
              (upstream' (tool_request key ''https://api.tavily.com/crawl'' (crawl_params key a3)) =
                 Inr r' \<and> is_success r' \<and> json_body r' = Some body' \<and>
               same_fields TavilyCrawlResponse_fields body body' \<longrightarrow>
                 fst (tavily_crawl key as_float upstream' cc) =
                 fst (tavily_crawl key as_float upstream cc))) \<and>
         (map_bind cm = Inr a4 \<and>
            upstream (tool_request key ''https://api.tavily.com/map'' (map_params key a4)) = Inr r
          \<longrightarrow> (fits_TavilyMapResponse as_float body \<longrightarrow>
                (\<exists>d. fst (tavily_map key as_float upstream cm) = Inr d \<and>
                     dumped_as TavilyMapResponse_fields [] body d \<and>
                     json_list d ''results'' = json_list body ''results'')) \<and>
              (upstream' (tool_request key ''https://api.tavily.com/map'' (map_params key a4)) =
                 Inr r' \<and> is_success r' \<and> json_body r' = Some body' \<and>
               same_fields TavilyMapResponse_fields body body' \<longrightarrow>
                 fst (tavily_map key as_float upstream' cm) =
                 fst (tavily_map key as_float upstream cm)))"
proof -
  have S: "(fits_TavilySearchResponse as_float body \<longrightarrow>
        (\<exists>d. fst (tavily_search key as_float upstream cs) = Inr d \<and>
             dumped_as TavilySearchResponse_fields [''answer'', ''images'', ''auto_parameters'']
               body d \<and>
             list_all2 (dumped_as SearchResult_fields [''published_date'', ''raw_content''])
               (json_list body ''results'') (json_list d ''results'') \<and>
             list_all2 image_dumped_as (json_list body ''images'') (json_list d ''images''))) \<and>
      (upstream' (tool_request key ''https://api.tavily.com/search'' (search_params key a1)) =
         Inr r' \<and> is_success r' \<and> json_body r' = Some body' \<and>
       same_fields TavilySearchResponse_fields body body' \<longrightarrow>
         fst (tavily_search key as_float upstream' cs) =
         fst (tavily_search key as_float upstream cs))"
    if b: "search_bind cs = Inr a1"
      and u: "upstream (tool_request key ''https://api.tavily.com/search'' (search_params key a1)) = Inr r"
  proof (intro conjI impI)
    assume "fits_TavilySearchResponse as_float body"
    then obtain m where m: "TavilySearchResponse_validate as_float body = Some m"
      using TavilySearchResponse_validate_fits [of as_float body] by blast
    have "fst (tavily_search key as_float upstream cs) = Inr (TavilySearchResponse_dump m)"
      by (simp add: tavily_search_eq [OF b] search_success [where upstream = upstream, OF u assms]
          validate_dump_def m)
    with search_dumped [OF m]
    show "\<exists>d. fst (tavily_search key as_float upstream cs) = Inr d \<and>
        dumped_as TavilySearchResponse_fields [''answer'', ''images'', ''auto_parameters''] body d \<and>
        list_all2 (dumped_as SearchResult_fields [''published_date'', ''raw_content''])
          (json_list body ''results'') (json_list d ''results'') \<and>
        list_all2 image_dumped_as (json_list body ''images'') (json_list d ''images'')"
      by blast
  next
    assume h: "upstream' (tool_request key ''https://api.tavily.com/search'' (search_params key a1)) =
        Inr r' \<and> is_success r' \<and> json_body r' = Some body' \<and>
      same_fields TavilySearchResponse_fields body body'"
    then have "TavilySearchResponse_validate as_float body =
        TavilySearchResponse_validate as_float body'"
      by (simp add: search_validate_same_fields)
    with h show "fst (tavily_search key as_float upstream' cs) =
        fst (tavily_search key as_float upstream cs)"
      by (simp add: tavily_search_eq [OF b] search_success [where upstream = upstream, OF u assms]
          search_success [where upstream = upstream' and r = r' and body = body'] validate_dump_def)
  qed
  have C: "(fits_TavilyCrawlResponse as_float body \<longrightarrow>
        (\<exists>d. fst (tavily_crawl key as_float upstream cc) = Inr d \<and>
             dumped_as TavilyCrawlResponse_fields [] body d \<and>
             list_all2 (dumped_as CrawlResult_fields [])
               (json_list body ''results'') (json_list d ''results''))) \<and>
      (upstream' (tool_request key ''https://api.tavily.com/crawl'' (crawl_params key a3)) =
         Inr r' \<and> is_success r' \<and> json_body r' = Some body' \<and>
       same_fields TavilyCrawlResponse_fields body body' \<longrightarrow>
         fst (tavily_crawl key as_float upstream' cc) =
         fst (tavily_crawl key as_float upstream cc))"
    if b: "crawl_bind cc = Inr a3"
      and u: "upstream (tool_request key ''https://api.tavily.com/crawl'' (crawl_params key a3)) = Inr r"
  proof (intro conjI impI)
    assume "fits_TavilyCrawlResponse as_float body"
    then obtain m where m: "TavilyCrawlResponse_validate as_float body = Some m"
      using TavilyCrawlResponse_validate_fits [of as_float body] by blast
    have "fst (tavily_crawl key as_float upstream cc) = Inr (TavilyCrawlResponse_dump m)"
      by (simp add: tavily_crawl_eq [OF b] crawl_success [where upstream = upstream, OF u assms]
          validate_dump_def m)
    with crawl_dumped [OF m]
    show "\<exists>d. fst (tavily_crawl key as_float upstream cc) = Inr d \<and>
        dumped_as TavilyCrawlResponse_fields [] body d \<and>
        list_all2 (dumped_as CrawlResult_fields [])
          (json_list body ''results'') (json_list d ''results'')"
      by blast
  next
    assume h: "upstream' (tool_request key ''https://api.tavily.com/crawl'' (crawl_params key a3)) =
        Inr r' \<and> is_success r' \<and> json_body r' = Some body' \<and>
      same_fields TavilyCrawlResponse_fields body body'"
    then have "TavilyCrawlResponse_validate as_float body =
        TavilyCrawlResponse_validate as_float body'"
      by (simp add: crawl_validate_same_fields)
    with h show "fst (tavily_crawl key as_float upstream' cc) =
        fst (tavily_crawl key as_float upstream cc)"
      by (simp add: tavily_crawl_eq [OF b] crawl_success [where upstream = upstream, OF u assms]
          crawl_success [where upstream = upstream' and r = r' and body = body'] validate_dump_def)
  qed
  have M: "(fits_TavilyMapResponse as_float body \<longrightarrow>
        (\<exists>d. fst (tavily_map key as_float upstream cm) = Inr d \<and>
             dumped_as TavilyMapResponse_fields [] body d \<and>
             json_list d ''results'' = json_list body ''results'')) \<and>
      (upstream' (tool_request key ''https://api.tavily.com/map'' (map_params key a4)) =
         Inr r' \<and> is_success r' \<and> json_body r' = Some body' \<and>
       same_fields TavilyMapResponse_fields body body' \<longrightarrow>
         fst (tavily_map key as_float upstream' cm) =
         fst (tavily_map key as_float upstream cm))"
    if b: "map_bind cm = Inr a4"
      and u: "upstream (tool_request key ''https://api.tavily.com/map'' (map_params key a4)) = Inr r"
  proof (intro conjI impI)
    assume "fits_TavilyMapResponse as_float body"
    then obtain m where m: "TavilyMapResponse_validate as_float body = Some m"
      using TavilyMapResponse_validate_fits [of as_float body] by blast
    have "fst (tavily_map key as_float upstream cm) = Inr (TavilyMapResponse_dump m)"
      by (simp add: tavily_map_eq [OF b] map_tool_success [where upstream = upstream, OF u assms]
          validate_dump_def m)
    with map_dumped [OF m]
    show "\<exists>d. fst (tavily_map key as_float upstream cm) = Inr d \<and>
        dumped_as TavilyMapResponse_fields [] body d \<and>
        json_list d ''results'' = json_list body ''results''"
      by blast
  next
    assume h: "upstream' (tool_request key ''https://api.tavily.com/map'' (map_params key a4)) =
        Inr r' \<and> is_success r' \<and> json_body r' = Some body' \<and>
      same_fields TavilyMapResponse_fields body body'"
    then have "TavilyMapResponse_validate as_float body =
        TavilyMapResponse_validate as_float body'"
      by (simp add: map_validate_same_fields)
    with h show "fst (tavily_map key as_float upstream' cm) =
        fst (tavily_map key as_float upstream cm)"
      by (simp add: tavily_map_eq [OF b] map_tool_success [where upstream = upstream, OF u assms]
          map_tool_success [where upstream = upstream' and r = r' and body = body'] validate_dump_def)
  qed
  from S C M show ?thesis by blast
qed

theorem validated_output_declared_keys_witness:
  "is_success (ok_response search_body) \<and>
   fits_TavilySearchResponse number_as_float search_body \<and>
   json_get search_body ''request_id'' = Some (JString ''x'') \<and>
   same_fields TavilySearchResponse_fields search_body search_body_declared \<and>
   fst (tavily_search ''k'' number_as_float (respond_with (ok_response search_body))
         (search_only ''q'')) =
     Inr (JObject
      [(''query'', JString ''q''),
       (''answer'', JNull),
       (''images'', JArray [JString ''i'', JObject [(''url'', JString ''j''), (''description'', JNull)]]),
       (''results'', JArray
          [JObject
            [(''title'', JString ''t''), (''url'', JString ''u''), (''content'', JString ''c''),
             (''score'', JFloat (1 / 2)), (''published_date'', JNull), (''raw_content'', JNull)]]),
       (''response_time'', JFloat 1),
       (''auto_parameters'', JNull)]) \<and>
   dumped_as TavilySearchResponse_fields [''answer'', ''images'', ''auto_parameters''] search_body
     (projr (fst (tavily_search ''k'' number_as_float (respond_with (ok_response search_body))
        (search_only ''q'')))) \<and>
   list_all2 (dumped_as SearchResult_fields [''published_date'', ''raw_content''])
     (json_list search_body ''results'')
     (json_list (projr (fst (tavily_search ''k'' number_as_float
        (respond_with (ok_response search_body)) (search_only ''q''))))  ''results'') \<and>
   list_all2 image_dumped_as
     (json_list search_body ''images'')
     (json_list (projr (fst (tavily_search ''k'' number_as_float
        (respond_with (ok_response search_body)) (search_only ''q''))))  ''images'') \<and>
   fst (tavily_search ''k'' number_as_float (respond_with (ok_response search_body_declared))
         (search_only ''q'')) =
   fst (tavily_search ''k'' number_as_float (respond_with (ok_response search_body))
         (search_only ''q'')) \<and>
   fits_TavilyCrawlResponse number_as_float crawl_body \<and>
   fst (tavily_crawl ''k'' number_as_float (respond_with (ok_response crawl_body))
         (crawl_only ''u'' ''i'')) =
     Inr (JObject
      [(''base_url'', JString ''b''),
       (''results'', JArray [JObject [(''url'', JString ''u''), (''raw_content'', JString ''c'')]]),
       (''response_time'', JFloat (1 / 2))]) \<and>
   dumped_as TavilyCrawlResponse_fields [] crawl_body
     (projr (fst (tavily_crawl ''k'' number_as_float (respond_with (ok_response crawl_body))
        (crawl_only ''u'' ''i'')))) \<and>
   fits_TavilyMapResponse number_as_float map_body \<and>
   fst (tavily_map ''k'' number_as_float (respond_with (ok_response map_body))
         (map_only ''u'' ''i'')) =
     Inr (JObject
      [(''base_url'', JString ''b''),
       (''results'', JArray [JString ''u'']),
       (''response_time'', JFloat (1 / 2))]) \<and>
   dumped_as TavilyMapResponse_fields [] map_body
     (projr (fst (tavily_map ''k'' number_as_float (respond_with (ok_response map_body))
        (map_only ''u'' ''i''))))"
proof -
  let ?s = "tavily_search ''k'' number_as_float (respond_with (ok_response search_body)) (search_only ''q'')"
  let ?s' = "tavily_search ''k'' number_as_float (respond_with (ok_response search_body_declared)) (search_only ''q'')"
  let ?c = "tavily_crawl ''k'' number_as_float (respond_with (ok_response crawl_body)) (crawl_only ''u'' ''i'')"
  let ?m = "tavily_map ''k'' number_as_float (respond_with (ok_response map_body)) (map_only ''u'' ''i'')"
  have g: "json_get search_body ''request_id'' = Some (JString ''x'')"
    by (simp add: search_body_def)
  have f: "same_fields TavilySearchResponse_fields search_body search_body_declared"
    by (simp add: same_fields_def TavilySearchResponse_fields_def search_body_def
        search_body_declared_def)
  note S = validated_output_declared_keys [OF ok_response_simps, where key = "''k''"
        and as_float = number_as_float and body = search_body
        and upstream = "respond_with (ok_response search_body)"
        and upstream' = "respond_with (ok_response search_body_declared)"
        and r' = "ok_response search_body_declared" and body' = search_body_declared
        and cs = "search_only ''q''"
        and ?a1.0 = "projr (search_bind (search_only ''q''))", THEN conjunct1]
  note C = validated_output_declared_keys [OF ok_response_simps, where key = "''k''"
        and as_float = number_as_float and body = crawl_body
        and upstream = "respond_with (ok_response crawl_body)"
        and upstream' = "respond_with (ok_response crawl_body)"
        and r' = "ok_response crawl_body" and body' = crawl_body
        and cc = "crawl_only ''u'' ''i''"
        and ?a3.0 = "projr (crawl_bind (crawl_only ''u'' ''i''))", THEN conjunct2, THEN conjunct1]
  note M = validated_output_declared_keys [OF ok_response_simps, where key = "''k''"
        and as_float = number_as_float and body = map_body
        and upstream = "respond_with (ok_response map_body)"
        and upstream' = "respond_with (ok_response map_body)"
        and r' = "ok_response map_body" and body' = map_body
        and cm = "map_only ''u'' ''i''"
        and ?a4.0 = "projr (map_bind (map_only ''u'' ''i''))", THEN conjunct2, THEN conjunct2]
  have sd: "dumped_as TavilySearchResponse_fields [''answer'', ''images'', ''auto_parameters'']
        search_body (projr (fst ?s)) \<and>
      list_all2 (dumped_as SearchResult_fields [''published_date'', ''raw_content''])
        (json_list search_body ''results'') (json_list (projr (fst ?s)) ''results'') \<and>
      list_all2 image_dumped_as
        (json_list search_body ''images'') (json_list (projr (fst ?s)) ''images'')"
    using S search_body_fits by (auto simp add: search_only_bind respond_with_apply)
  have s': "fst ?s' = fst ?s"
    using S f by (simp add: search_only_bind respond_with_apply ok_response_simps)
  have cd: "dumped_as TavilyCrawlResponse_fields [] crawl_body (projr (fst ?c))"
    using C crawl_body_fits by (auto simp add: crawl_only_bind respond_with_apply)
  have md: "dumped_as TavilyMapResponse_fields [] map_body (projr (fst ?m))"
    using M map_body_fits by (auto simp add: map_only_bind respond_with_apply)
  from g f sd s' cd md search_body_fits crawl_body_fits map_body_fits
    search_body_result crawl_body_result map_body_result ok_response_simps(1) [of search_body]
  show ?thesis by blast
qed

subsection \<open>The extract lists\<close>

text \<open>
  C8, as the claim states it, fails: the upstream answers a call for the URLs a, b, c
  with two successes (a, b) and one failure (b). The tool returns this body, in which
  b is in both lists and c in neither.
\<close>

theorem extract_coverage_counterexample:
  "length [''a'', ''b'', ''c''] = 3 \<and>
   is_success (ok_response extract_body_overlap) \<and>
   length (success_list extract_body_overlap) = 2 \<and>
   length (failure_list extract_body_overlap) = 1 \<and>
   fst (tavily_extract ''k'' (respond_with (ok_response extract_body_overlap))
         (extract_only [''a'', ''b'', ''c''])) = Inr extract_body_overlap \<and>
   \<not> each_url_in_one_list [''a'', ''b'', ''c''] extract_body_overlap"
proof -
  have "is_dict extract_body_overlap"
    by (simp add: is_dict_def extract_body_overlap_def)
  then have "fst (tavily_extract ''k'' (respond_with (ok_response extract_body_overlap))
         (extract_only [''a'', ''b'', ''c''])) = Inr extract_body_overlap"
    by (simp add: extract_returns_body [where upstream = "respond_with (ok_response extract_body_overlap)",
        OF extract_only_bind respond_with_apply ok_response_simps])
  moreover have "length (success_list extract_body_overlap) = 2"
    "length (failure_list extract_body_overlap) = 1"
    by (simp_all add: success_list_def failure_list_def json_list_def extract_body_overlap_def)
  moreover have "\<not> each_url_in_one_list [''a'', ''b'', ''c''] extract_body_overlap"
    by (simp add: each_url_in_one_list_def entry_urls_def success_list_def failure_list_def
        json_list_def extract_body_overlap_def)
  ultimately show ?thesis
    by (simp add: ok_response_simps)
qed

text \<open>
  C8, amended. For a tavily-extract call with 3 URLs whose successful response reports 2
  successes and 1 failure, the returned value is the upstream body itself, unchanged: it
  has 2 entries in the success list and 1 in the failure list, and every input URL is
  in exactly one of its two lists exactly when that holds of the upstream body.
\<close>

theorem extract_returns_upstream_lists:
  assumes "extract_bind c = Inr a"
    and "length (e_urls a) = 3"
    and "upstream (tool_request key ''https://api.tavily.com/extract'' (extract_params key a)) = Inr r"
    and "is_success r"
    and "json_body r = Some body"
    and "length (success_list body) = 2"
    and "length (failure_list body) = 1"
  shows "\<exists>v. fst (tavily_extract key upstream c) = Inr v \<and>
             v = body \<and>
             length (success_list v) = 2 \<and>
             length (failure_list v) = 1 \<and>
             each_url_in_one_list (e_urls a) v = each_url_in_one_list (e_urls a) body"
proof -
  have "json_list body ''results'' \<noteq> []"
    using assms(6) by (auto simp add: success_list_def)
  then have "is_dict body" by (rule json_list_is_dict)
  with assms(1,3,4,5) have "fst (tavily_extract key upstream c) = Inr body"
    by (simp add: extract_returns_body)
  with assms(6,7) show ?thesis by simp
qed

theorem extract_returns_upstream_lists_witness:
  "length [''a'', ''b'', ''c''] = 3 \<and>
   is_success (ok_response extract_body_partition) \<and>
   length (success_list extract_body_partition) = 2 \<and>
   length (failure_list extract_body_partition) = 1 \<and>
   each_url_in_one_list [''a'', ''b'', ''c''] extract_body_partition \<and>
   fst (tavily_extract ''k'' (respond_with (ok_response extract_body_partition))
         (extract_only [''a'', ''b'', ''c''])) = Inr extract_body_partition \<and>
   each_url_in_one_list [''a'', ''b'', ''c''] (projr (fst (tavily_extract ''k''
       (respond_with (ok_response extract_body_partition)) (extract_only [''a'', ''b'', ''c'']))))"
proof -
  let ?urls = "[''a'', ''b'', ''c'']"
  let ?t = "tavily_extract ''k'' (respond_with (ok_response extract_body_partition)) (extract_only ?urls)"
  have l: "length (success_list extract_body_partition) = 2"
    "length (failure_list extract_body_partition) = 1"
    by (simp_all add: success_list_def failure_list_def json_list_def extract_body_partition_def)
  have e: "each_url_in_one_list ?urls extract_body_partition"
    by (simp add: each_url_in_one_list_def entry_urls_def success_list_def failure_list_def
        json_list_def extract_body_partition_def)
  have n: "length (e_urls \<lparr>e_urls = ?urls, e_extract_depth = ''basic'', e_include_images = False,
      e_format = ''markdown''\<rparr>) = 3"
    by simp
  from extract_returns_upstream_lists [where key = "''k''"
      and upstream = "respond_with (ok_response extract_body_partition)",
      OF extract_only_bind n respond_with_apply ok_response_simps l]
  have t: "fst ?t = Inr extract_body_partition"
    by auto
  with e have "each_url_in_one_list ?urls (projr (fst ?t))"
    by simp
  with l e t show ?thesis
    by (simp add: ok_response_simps)
qed

subsection \<open>Default payloads\<close>


subsection \<open>Start without a credential\<close>

lemma credential_serves_tools:
  assumes "env_TAVILY_API_KEY env = Some key"
  shows "callable_tools (run_sse py_int env) =
           [''tavily-search'', ''tavily-extract'', ''tavily-crawl'', ''tavily-map'']"
  using assms
  by (simp add: run_sse_def run_with_def import_server_def callable_tools_def
      run_server_def register_tool_def print_line_def)

text \<open>
  C9. When \<^verbatim>\<open>TAVILY_API_KEY\<close> is not in the environment, the import of the server
  module ends the process with exit code -1 before any tool is registered; neither
  entry point reaches the serving loop, and no tool is callable.
\<close>

theorem missing_credential_exits:
  assumes "env_TAVILY_API_KEY env = None"
  shows "(\<exists>m. import_server py_int env = SystemExit (- 1) m \<and> mod_tools m = []) \<and>
         (\<exists>m. run_sse py_int env = SystemExit (- 1) m \<and> mod_tools m = []) \<and>
         (\<exists>m. run_stdio py_int env = SystemExit (- 1) m \<and> mod_tools m = []) \<and>
         callable_tools (run_sse py_int env) = [] \<and>
         callable_tools (run_stdio py_int env) = []"
  using assms
  by (simp add: run_sse_def run_stdio_def run_with_def import_server_def callable_tools_def
      print_line_def)

theorem missing_credential_exits_witness:
  "env_TAVILY_API_KEY \<lparr>env_TAVILY_MCP_PORT = Some ''9000'', env_TAVILY_API_KEY = None\<rparr> = None \<and>
   run_sse (\<lambda>s. None) \<lparr>env_TAVILY_MCP_PORT = Some ''9000'', env_TAVILY_API_KEY = None\<rparr> =
     SystemExit (- 1)
       \<lparr>mod_port = 8000, mod_host = ''0.0.0.0'', mod_api_key = None, mod_tools = [],
        mod_stdout = [''Tavily API KEY Does not exist!! '']\<rparr> \<and>
   callable_tools
     (run_sse (\<lambda>s. None) \<lparr>env_TAVILY_MCP_PORT = Some ''9000'', env_TAVILY_API_KEY = None\<rparr>) = []"
proof -
  let ?env = "\<lparr>env_TAVILY_MCP_PORT = Some ''9000'', env_TAVILY_API_KEY = None\<rparr>"
  have h: "env_TAVILY_API_KEY ?env = None" by simp
  have r: "run_sse (\<lambda>s. None) ?env =
     SystemExit (- 1)
       \<lparr>mod_port = 8000, mod_host = ''0.0.0.0'', mod_api_key = None, mod_tools = [],
        mod_stdout = [''Tavily API KEY Does not exist!! '']\<rparr>"
    by (simp add: run_sse_def run_with_def import_server_def print_line_def tavily_port_def)
  from missing_credential_exits [OF h, of "\<lambda>s. None"]
  have "callable_tools (run_sse (\<lambda>s. None) ?env) = []" by blast
  with h r show ?thesis by blast
qed

end
